theory Spec2Isabelle
  imports Main "HOL-Library.AList"
begin

section \<open>JavaScript values\<close>

text \<open>
  The engine is written in TypeScript and compares values with \<^verbatim>\<open>===\<close>,
  \<^verbatim>\<open>!==\<close>, \<^verbatim>\<open>Number.isNaN\<close> and truthiness.  A value is a primitive or
  a reference to an object; an object carries its identity (a number standing for the
  reference) and its own enumerable properties, which is all that
  \<^verbatim>\<open>sameShallow\<close> inspects.  Numbers are integers or \<^verbatim>\<open>NaN\<close>.
\<close>

datatype jsval =
    JUndefined
  | JNull
  | JBool bool
  | JNum int
  | JNaN
  | JStr string
  | JObj nat "(string \<times> jsval) list"

text \<open>\<^verbatim>\<open>a === b\<close>: objects by reference, \<^verbatim>\<open>NaN\<close> equal to nothing.\<close>

fun strictEq :: "jsval \<Rightarrow> jsval \<Rightarrow> bool" where
  "strictEq JNaN b = False"
| "strictEq a JNaN = False"
| "strictEq (JObj i ps) (JObj j qs) = (i = j)"
| "strictEq a b = (a = b)"

fun isNaN :: "jsval \<Rightarrow> bool" where
  "isNaN JNaN = True"
| "isNaN a = False"

fun truthy :: "jsval \<Rightarrow> bool" where
  "truthy JUndefined = False"
| "truthy JNull = False"
| "truthy (JBool b) = b"
| "truthy (JNum n) = (n \<noteq> 0)"
| "truthy JNaN = False"
| "truthy (JStr s) = (s \<noteq> [])"
| "truthy (JObj i ps) = True"

text \<open>util.ts, \<^verbatim>\<open>sameValueZero(a, b)\<close>:
  \<^verbatim>\<open>a === b || (Number.isNaN(a) && Number.isNaN(b))\<close>.\<close>

definition sameValueZero :: "jsval \<Rightarrow> jsval \<Rightarrow> bool" where
  "sameValueZero a b = (strictEq a b \<or> (isNaN a \<and> isNaN b))"

section \<open>The bounded render caches\<close>

subsection \<open>Cache: linear scan with a key comparator\<close>

text \<open>
  \<^verbatim>\<open>class Cache { entries: any[]; maxSize; keyComparator }\<close>.  An entry is the pair
  \<^verbatim>\<open>{key, value}\<close>; \<^verbatim>\<open>maxSize\<close> is a number (\<^verbatim>\<open>-1\<close>: unbounded).
\<close>

record ('k, 'v) Cache =
  entries :: "('k \<times> 'v) list"
  maxSize :: int
  keyComparator :: "'k \<Rightarrow> 'k \<Rightarrow> bool"

text \<open>\<^verbatim>\<open>_findEntry(key)\<close>: the index of the first entry whose key the comparator
  accepts, \<^verbatim>\<open>-1\<close> when there is none.  The loop over \<^verbatim>\<open>i\<close> is the recursion
  over the list, with the index counted up.\<close>

fun findEntryFrom :: "('k \<Rightarrow> 'k \<Rightarrow> bool) \<Rightarrow> 'k \<Rightarrow> ('k \<times> 'v) list \<Rightarrow> int \<Rightarrow> int" where
  "findEntryFrom cmp key [] i = -1"
| "findEntryFrom cmp key (e # es) i =
     (if cmp key (fst e) then i else findEntryFrom cmp key es (i + 1))"

definition findEntry :: "('k, 'v) Cache \<Rightarrow> 'k \<Rightarrow> int" where
  "findEntry c key = findEntryFrom (keyComparator c) key (entries c) 0"

definition getMaxSize :: "('k, 'v) Cache \<Rightarrow> int" where
  "getMaxSize c = maxSize c"

text \<open>\<^verbatim>\<open>setEntry(key, value)\<close>.  \<^verbatim>\<open>unshift\<close> is \<open>#\<close>, \<^verbatim>\<open>pop\<close> is
  \<^const>\<open>butlast\<close> (both leave an empty array empty).\<close>

definition setEntry :: "('k, 'v) Cache \<Rightarrow> 'k \<Rightarrow> 'v \<Rightarrow> ('k, 'v) Cache" where
  "setEntry c key v =
     (let existingIndex = findEntry c key in
      if existingIndex \<ge> 0 then
        c\<lparr>entries := (entries c)[nat existingIndex := (fst (entries c ! nat existingIndex), v)]\<rparr>
      else
        let m = getMaxSize c;
            es1 = (if m \<noteq> 0 then (key, v) # entries c else entries c);
            es2 = (if m \<ge> 0 \<and> int (length es1) > m then butlast es1 else es1)
        in c\<lparr>entries := es2\<rparr>)"

text \<open>\<^verbatim>\<open>getEntry(key)\<close>: \<open>None\<close> is the default \<^verbatim>\<open>Cache.MISSING\<close>.\<close>

definition getEntry :: "('k, 'v) Cache \<Rightarrow> 'k \<Rightarrow> 'v option" where
  "getEntry c key =
     (let index = findEntry c key in
      if index \<ge> 0 then Some (snd (entries c ! nat index)) else None)"

definition getSize :: "('k, 'v) Cache \<Rightarrow> nat" where
  "getSize c = length (entries c)"

definition empty_cache :: "('k, 'v) Cache \<Rightarrow> ('k, 'v) Cache" where
  "empty_cache c = c\<lparr>entries := []\<rparr>"

subsection \<open>HashCache: keyed by the hash of the render argument\<close>

text \<open>
  \<^verbatim>\<open>class HashCache { entries: Map<HashType, ValueType>; keysOrder: (HashType | null)[];
  maxSize; keyHash }\<close> with string hashes.  The \<^verbatim>\<open>Map\<close> is an association list in
  insertion order: \<^verbatim>\<open>set\<close> is \<^const>\<open>AList.update\<close> (in place for a present key,
  appended for a new one), \<^verbatim>\<open>delete\<close> is \<^const>\<open>AList.delete\<close>, \<^verbatim>\<open>get\<close> is
  \<^const>\<open>map_of\<close>, \<^verbatim>\<open>size\<close> is \<^const>\<open>length\<close>.
\<close>

record ('k, 'v) HashCache =
  hentries :: "(string \<times> 'v) list"
  keysOrder :: "string option list"
  hmaxSize :: int
  keyHash :: "'k \<Rightarrow> string"

text \<open>The eviction loop of \<^verbatim>\<open>setEntry\<close>: the first \<^verbatim>\<open>keysOrder[i]\<close> that is
  truthy (not \<^verbatim>\<open>null\<close>, not the empty string) and differs from the new hash is
  deleted from the map and overwritten with \<^verbatim>\<open>null\<close>; then \<^verbatim>\<open>break\<close>.\<close>

fun evictFirst :: "string \<Rightarrow> string option list \<Rightarrow> (string \<times> 'v) list
    \<Rightarrow> string option list \<times> (string \<times> 'v) list" where
  "evictFirst h [] es = ([], es)"
| "evictFirst h (k # ks) es =
     (case k of
        Some keyToDelete \<Rightarrow>
          if keyToDelete \<noteq> [] \<and> keyToDelete \<noteq> h
          then (None # ks, AList.delete keyToDelete es)
          else (let (ks', es') = evictFirst h ks es in (k # ks', es'))
      | None \<Rightarrow> (let (ks', es') = evictFirst h ks es in (k # ks', es')))"

definition hgetMaxSize :: "('k, 'v) HashCache \<Rightarrow> int" where
  "hgetMaxSize c = hmaxSize c"

definition hsetEntry :: "('k, 'v) HashCache \<Rightarrow> 'k \<Rightarrow> 'v \<Rightarrow> ('k, 'v) HashCache" where
  "hsetEntry c key v =
     (let h = keyHash c key;
          m = hgetMaxSize c;
          (ks1, es1) =
             (if m \<ge> 0 \<and> int (length (hentries c)) \<ge> m
              then evictFirst h (keysOrder c) (hentries c)
              else (keysOrder c, hentries c))
      in if m \<noteq> 0
         then c\<lparr>hentries := AList.update h v es1,
                keysOrder := (if map_of es1 h = None then ks1 @ [Some h] else ks1)\<rparr>
         else c\<lparr>hentries := es1, keysOrder := ks1\<rparr>)"

definition hgetEntry :: "('k, 'v) HashCache \<Rightarrow> 'k \<Rightarrow> 'v option" where
  "hgetEntry c key = map_of (hentries c) (keyHash c key)"

definition hgetSize :: "('k, 'v) HashCache \<Rightarrow> nat" where
  "hgetSize c = length (hentries c)"

definition newHashCache :: "int \<Rightarrow> ('k \<Rightarrow> string) \<Rightarrow> ('k, 'v) HashCache" where
  "newHashCache m kh = \<lparr>hentries = [], keysOrder = [], hmaxSize = m, keyHash = kh\<rparr>"

definition newCache :: "int \<Rightarrow> ('k \<Rightarrow> 'k \<Rightarrow> bool) \<Rightarrow> ('k, 'v) Cache" where
  "newCache m cmp = \<lparr>entries = [], maxSize = m, keyComparator = cmp\<rparr>"

section \<open>Shallow comparison and contexts\<close>

text \<open>\<^verbatim>\<open>Map.get\<close> and property access: \<^verbatim>\<open>undefined\<close> for an absent key.\<close>

definition jsGet :: "(string \<times> jsval) list \<Rightarrow> string \<Rightarrow> jsval" where
  "jsGet ps k = (case map_of ps k of None \<Rightarrow> JUndefined | Some v \<Rightarrow> v)"

definition jsHas :: "(string \<times> jsval) list \<Rightarrow> string \<Rightarrow> bool" where
  "jsHas ps k = (map_of ps k \<noteq> None)"

text \<open>The two loops of \<^verbatim>\<open>sameShallow\<close> over the own properties of \<^verbatim>\<open>a\<close> and of
  \<^verbatim>\<open>b\<close>.\<close>

definition sameShallowProps ::
  "(jsval \<Rightarrow> jsval \<Rightarrow> bool) \<Rightarrow> (string \<times> jsval) list \<Rightarrow> (string \<times> jsval) list \<Rightarrow> bool" where
  "sameShallowProps sameValue a b =
     (list_all (\<lambda>key. jsHas b key \<and> sameValue (jsGet a key) (jsGet b key)) (map fst a)
      \<and> list_all (\<lambda>key. jsHas a key) (map fst b))"

fun typeof :: "jsval \<Rightarrow> string" where
  "typeof JUndefined = ''undefined''"
| "typeof JNull = ''object''"
| "typeof (JBool b) = ''boolean''"
| "typeof (JNum n) = ''number''"
| "typeof JNaN = ''number''"
| "typeof (JStr s) = ''string''"
| "typeof (JObj i ps) = ''object''"

text \<open>The enumerable own properties \<^verbatim>\<open>for (const key in a)\<close> visits: those of an
  object; the characters of a string, keyed by position (written in unary here, the key
  only has to tell positions apart); none for a number or a boolean.\<close>

fun ownProps :: "jsval \<Rightarrow> (string \<times> jsval) list" where
  "ownProps (JObj i ps) = ps"
| "ownProps (JStr s) = map (\<lambda>n. (replicate n (CHR ''i''), JStr [s ! n])) [0..<length s]"
| "ownProps a = []"

text \<open>util.ts, \<^verbatim>\<open>sameShallow(a, b, {sameValue})\<close>.\<close>

definition sameShallow :: "(jsval \<Rightarrow> jsval \<Rightarrow> bool) \<Rightarrow> jsval \<Rightarrow> jsval \<Rightarrow> bool" where
  "sameShallow sameValue a b =
     (if sameValue a b then True
      else if \<not> truthy a \<or> \<not> truthy b then False
      else if typeof a \<noteq> typeof b then False
      else sameShallowProps sameValue (ownProps a) (ownProps b))"

text \<open>
  Context.ts, \<^verbatim>\<open>class Context { attributes: Map<string, any>; componentData }\<close>.  A
  context is never mutated after its construction, and the engine compares contexts by
  reference (\<^verbatim>\<open>context !== prevContext\<close>, \<^verbatim>\<open>cache.base === base\<close>): the record
  carries the reference as \<open>ctxId\<close>, and a constructor call takes the next unused
  reference from a counter.  \<^verbatim>\<open>componentData\<close> is set only on the clone a component
  reads through (see \<open>contextGet\<close> below).
\<close>

record Context =
  ctxId :: nat
  attributes :: "(string \<times> jsval) list"

text \<open>\<^verbatim>\<open>Context.sameValue(a, b, name)\<close> of the base class.\<close>

definition sameValue :: "jsval \<Rightarrow> jsval \<Rightarrow> bool" where
  "sameValue a b = sameValueZero a b"

text \<open>The loop of \<^verbatim>\<open>Context.change(modifications)\<close>: \<^verbatim>\<open>newAttrs\<close> is
  \<^verbatim>\<open>null\<close> until the first modification whose value is \<^verbatim>\<open>!==\<close> the existing one;
  then it is a copy of the attributes that every such modification is set in.\<close>

fun changeLoop :: "(string \<times> jsval) list \<Rightarrow> (string \<times> jsval) list \<Rightarrow> string list
    \<Rightarrow> (string \<times> jsval) list option \<Rightarrow> (string \<times> jsval) list option" where
  "changeLoop attrs mods [] newAttrs = newAttrs"
| "changeLoop attrs mods (key # keys) newAttrs =
     (let newValue = jsGet mods key;
          existingValue = jsGet attrs key
      in if \<not> strictEq newValue existingValue
         then changeLoop attrs mods keys
                (Some (AList.update key newValue (case newAttrs of None \<Rightarrow> attrs | Some m \<Rightarrow> m)))
         else changeLoop attrs mods keys newAttrs)"

text \<open>\<^verbatim>\<open>change\<close> returns \<^verbatim>\<open>this\<close> or a new object; the second component is the
  counter of references after the call.\<close>

definition change :: "Context \<Rightarrow> (string \<times> jsval) list \<Rightarrow> nat \<Rightarrow> Context \<times> nat" where
  "change this modifications fresh =
     (case changeLoop (attributes this) modifications (map fst modifications) None of
        Some newAttrs \<Rightarrow> (\<lparr>ctxId = fresh, attributes = newAttrs\<rparr>, Suc fresh)
      | None \<Rightarrow> (this, fresh))"

text \<open>The cache object \<^verbatim>\<open>{base?, modifications?, result?}\<close> of
  \<^verbatim>\<open>applyModificationsCached\<close>: \<open>None\<close> is the empty object \<^verbatim>\<open>{}\<close> a component
  starts with, whose \<^verbatim>\<open>base\<close> is \<^verbatim>\<open>undefined\<close> and equal to no context.\<close>

record modCache =
  mcBase :: Context
  mcModifications :: "(string \<times> jsval) list"
  mcResult :: Context

text \<open>util.ts, \<^verbatim>\<open>applyModificationsCached(base, modifications, cache, options)\<close> with
  \<^verbatim>\<open>options = {sameValue: base.sameValue}\<close>.  Both modification objects are non-null
  objects when \<^verbatim>\<open>sameShallow\<close> is reached, so it comes down to the two property
  loops.  The result is the context, the cache and the reference counter.\<close>

definition applyModificationsCached ::
  "Context \<Rightarrow> (string \<times> jsval) list option \<Rightarrow> modCache option \<Rightarrow> nat
    \<Rightarrow> Context \<times> modCache option \<times> nat" where
  "applyModificationsCached base modifications cache fresh =
     (case modifications of
        None \<Rightarrow> (base, cache, fresh)
      | Some mods \<Rightarrow>
          (case cache of
             Some c \<Rightarrow>
               if ctxId (mcBase c) = ctxId base \<and> sameShallowProps sameValue (mcModifications c) mods
               then (mcResult c, cache, fresh)
               else (let (r, fresh') = change base mods fresh
                     in (r, Some \<lparr>mcBase = base, mcModifications = mods, mcResult = r\<rparr>, fresh'))
           | None \<Rightarrow>
               (let (r, fresh') = change base mods fresh
                in (r, Some \<lparr>mcBase = base, mcModifications = mods, mcResult = r\<rparr>, fresh'))))"

section \<open>Used context attributes\<close>

text \<open>
  Context.ts keeps, per component, the context attributes it has read as a bitfield: an
  array of numbers with \<^verbatim>\<open>BITS_PER_ELEMENT = 30\<close> bits each, indexed by the numeric key
  the process-wide table \<^verbatim>\<open>contextNamesByKey\<close> gives a name (the reverse table
  \<^verbatim>\<open>contextKeysByName\<close> is the position of the name in that array).  The arrays are
  modelled by value.
\<close>

definition BITS_PER_ELEMENT :: nat where
  "BITS_PER_ELEMENT = 30"

text \<open>\<^verbatim>\<open>setBit(bitfield, index)\<close>.\<close>

definition setBit :: "nat list \<Rightarrow> nat \<Rightarrow> nat list" where
  "setBit bitfield index =
     (let elementIndex = index div BITS_PER_ELEMENT;
          bf = (if length bitfield \<le> elementIndex
                then bitfield @ replicate (elementIndex + 1 - length bitfield) 0
                else bitfield)
      in bf[elementIndex := or (bf ! elementIndex) (push_bit (index mod BITS_PER_ELEMENT) 1)])"

definition nameAt :: "string list \<Rightarrow> nat \<Rightarrow> string option" where
  "nameAt names k = (if k < length names then Some (names ! k) else None)"

text \<open>\<^verbatim>\<open>anyUsedAttribute(bitfield, callback)\<close>: the callback gets the name of every set
  bit (\<^verbatim>\<open>undefined\<close>, here \<open>None\<close>, for a key without a name); the callbacks of the
  engine have no effect, so the early return is the existential.\<close>

definition anyUsedAttribute :: "string list \<Rightarrow> nat list \<Rightarrow> (string option \<Rightarrow> bool) \<Rightarrow> bool" where
  "anyUsedAttribute names bitfield callback =
     list_ex (\<lambda>i. let element = bitfield ! i in
                element \<noteq> 0 \<and>
                list_ex (\<lambda>j. and element (push_bit j 1) \<noteq> 0
                              \<and> callback (nameAt names (i * BITS_PER_ELEMENT + j)))
                  [0..<BITS_PER_ELEMENT])
       [0..<length bitfield]"

text \<open>\<^verbatim>\<open>addUsedContextAttributes(target, source)\<close>, returning the new target.\<close>

definition addUsedContextAttributes :: "nat list \<Rightarrow> nat list \<Rightarrow> nat list" where
  "addUsedContextAttributes target source =
     (let tl = length target;
          sl = length source;
          t1 = (if tl < sl then target @ drop tl source else target);
          l = (if tl < sl then tl else sl)
      in map (\<lambda>i. if i < l then or (t1 ! i) (source ! i) else t1 ! i) [0..<length t1])"

text \<open>\<^verbatim>\<open>context.attributes.get(name)\<close> for a name that may be \<^verbatim>\<open>undefined\<close>.\<close>

definition attrGet :: "Context \<Rightarrow> string option \<Rightarrow> jsval" where
  "attrGet c name = (case name of None \<Rightarrow> JUndefined | Some n \<Rightarrow> jsGet (attributes c) n)"

text \<open>Component.ts, \<^verbatim>\<open>didContextChange(newContext, prevContext, usedAttributes)\<close>.\<close>

definition didContextChange ::
  "string list \<Rightarrow> Context option \<Rightarrow> Context option \<Rightarrow> nat list \<Rightarrow> bool" where
  "didContextChange names newContext prevContext usedAttributes =
     (case newContext of
        None \<Rightarrow> False
      | Some ctx \<Rightarrow>
          if (case prevContext of Some p \<Rightarrow> ctxId p = ctxId ctx | None \<Rightarrow> False) then False
          else anyUsedAttribute names usedAttributes
                 (\<lambda>name. case prevContext of
                            None \<Rightarrow> True
                          | Some p \<Rightarrow> \<not> sameValue (attrGet p name) (attrGet ctx name)))"

text \<open>Modelled from the spec: \<^verbatim>\<open>EmptyContext.ts\<close> is imported by Component.ts and is
  not among the sources; the specification's context is an immutable key/value
  association, and the API notes say a default empty \<^verbatim>\<open>Context\<close> instance is used when
  a root is given none.  It is the one context object constructed at load time, with
  reference 0.\<close>

definition emptyContext :: Context where
  "emptyContext = \<lparr>ctxId = 0, attributes = []\<rparr>"

section \<open>Components\<close>

type_synonym cid = nat

text \<open>What a hook can throw: the pending signal of RenderPending.ts or an error.\<close>

datatype exn = RenderPending | Error string

datatype phase = CREATING | MOUNTING | PREPARING | RENDERING | RENDERED | UNMOUNTING | RESTORING

fun phaseNum :: "phase \<Rightarrow> nat" where
  "phaseNum CREATING = 0"
| "phaseNum MOUNTING = 1"
| "phaseNum PREPARING = 2"
| "phaseNum RENDERING = 3"
| "phaseNum RENDERED = 4"
| "phaseNum UNMOUNTING = 5"
| "phaseNum RESTORING = 6"

text \<open>\<^verbatim>\<open>const RENDER_INTERRUPT = {}\<close>: a singleton object, with reference 0.\<close>

definition RENDER_INTERRUPT :: jsval where
  "RENDER_INTERRUPT = JObj 0 []"

text \<open>
  \<^verbatim>\<open>type CacheEntry = {result, instance, children, context, usedContextAttributes,
  descendantCount}\<close>, also the \<^verbatim>\<open>ChildInfo\<close> a parent stores per child.  The engine
  compares entries by reference (\<^verbatim>\<open>cacheEntry === data._currentlyUsedCache\<close>), so an
  entry carries its reference \<open>entryId\<close>.  \<^verbatim>\<open>children\<close> is a \<^verbatim>\<open>Map\<close> from
  component ids to entries or \<^verbatim>\<open>null\<close>; the instance is named by its id.
\<close>

datatype cacheEntry = CacheEntry
  (entryId: nat)
  (ceResult: jsval)
  (ceInstance: cid)
  (ceChildren: "(cid \<times> cacheEntry) list option")
  (ceContext: "Context option")
  (ceUsed: "nat list")
  (descendantCount: int)

type_synonym children = "(cid \<times> cacheEntry) list"

subsection \<open>SingleEntryCache and the choice of the render cache\<close>

record ('k, 'v) SingleEntryCache =
  skeyHash :: "string option"
  svalue :: "'v option"
  sgetKeyHash :: "'k \<Rightarrow> string"

definition ssetEntry :: "('k, 'v) SingleEntryCache \<Rightarrow> 'k \<Rightarrow> 'v \<Rightarrow> ('k, 'v) SingleEntryCache" where
  "ssetEntry c key v = c\<lparr>skeyHash := Some (sgetKeyHash c key), svalue := Some v\<rparr>"

definition sgetEntry :: "('k, 'v) SingleEntryCache \<Rightarrow> 'k \<Rightarrow> 'v option" where
  "sgetEntry c key =
     (case skeyHash c of
        None \<Rightarrow> None
      | Some h \<Rightarrow> if sgetKeyHash c key = h then svalue c else None)"

definition sempty :: "('k, 'v) SingleEntryCache \<Rightarrow> ('k, 'v) SingleEntryCache" where
  "sempty c = c\<lparr>skeyHash := None, svalue := None\<rparr>"

definition hempty :: "('k, 'v) HashCache \<Rightarrow> ('k, 'v) HashCache" where
  "hempty c = c\<lparr>hentries := [], keysOrder := []\<rparr>"

text \<open>\<^verbatim>\<open>data._renderCache\<close> is one of the three, chosen in the constructor of
  \<^verbatim>\<open>Component\<close> from \<^verbatim>\<open>canHashRenderArg()\<close>, \<^verbatim>\<open>getMaxRenderCacheSize()\<close> and
  \<^verbatim>\<open>getRenderArgHash\<close>.\<close>

datatype renderCache =
    ScanCache "(jsval, cacheEntry) Cache"
  | HashedCache "(jsval, cacheEntry) HashCache"
  | SingleCache "(jsval, cacheEntry) SingleEntryCache"

definition newRenderCache :: "bool \<Rightarrow> int \<Rightarrow> (jsval \<Rightarrow> string) \<Rightarrow> renderCache" where
  "newRenderCache canHashRenderArg maxSize' getRenderArgHash =
     (if canHashRenderArg then
        (if maxSize' = 1
         then SingleCache \<lparr>skeyHash = None, svalue = None, sgetKeyHash = getRenderArgHash\<rparr>
         else HashedCache (newHashCache maxSize' getRenderArgHash))
      else ScanCache (newCache maxSize' (sameShallow sameValueZero)))"

fun rcGetEntry :: "renderCache \<Rightarrow> jsval \<Rightarrow> cacheEntry option" where
  "rcGetEntry (ScanCache c) arg = getEntry c arg"
| "rcGetEntry (HashedCache c) arg = hgetEntry c arg"
| "rcGetEntry (SingleCache c) arg = sgetEntry c arg"

fun rcSetEntry :: "renderCache \<Rightarrow> jsval \<Rightarrow> cacheEntry \<Rightarrow> renderCache" where
  "rcSetEntry (ScanCache c) arg e = ScanCache (setEntry c arg e)"
| "rcSetEntry (HashedCache c) arg e = HashedCache (hsetEntry c arg e)"
| "rcSetEntry (SingleCache c) arg e = SingleCache (ssetEntry c arg e)"

fun rcEmpty :: "renderCache \<Rightarrow> renderCache" where
  "rcEmpty (ScanCache c) = ScanCache (empty_cache c)"
| "rcEmpty (HashedCache c) = HashedCache (hempty c)"
| "rcEmpty (SingleCache c) = SingleCache (sempty c)"

subsection \<open>Hooks\<close>

text \<open>
  The engine calls the virtual methods of a component; what they do is the application's
  code.  A render hook is modelled by the calls it makes into the engine, each with the
  rest of the hook as its continuation: it renders a child
  (\<^verbatim>\<open>child.render(arg)\<close>, \<^verbatim>\<open>renderRequired\<close> or \<^verbatim>\<open>renderOptional\<close>, the two
  booleans being \<^verbatim>\<open>isRequired\<close> and \<^verbatim>\<open>isOptional\<close>) and goes on with its result,
  renders another component as a root (\<^verbatim>\<open>other.renderRoot(arg)\<close>),
  reads a context attribute (\<^verbatim>\<open>this.getContext().get(name)\<close>), sets state
  (\<^verbatim>\<open>this.setState(values)\<close>), lets time pass, and in the end returns a value or throws.
  \<^verbatim>\<open>return this.interruptRendering()\<close> is \<open>Return RENDER_INTERRUPT\<close>.  An exception of
  a child's \<^verbatim>\<open>render\<close> is not caught by the hook.
\<close>

datatype script =
    Return jsval
  | Throw exn
  | Render cid jsval bool bool "jsval \<Rightarrow> script"
  | RenderRoot cid jsval "jsval \<Rightarrow> script"
  | GetContext string "jsval \<Rightarrow> script"
  | SetState "(string \<times> jsval) list" script
  | Tick nat script

text \<open>
  \<^verbatim>\<open>class RebackVirtualMethods\<close>: the hooks of a component class.  The render hooks
  see their arguments and the component's state; the predicates are functions of their
  arguments.  \<open>doPrepareAsync\<close> says that \<^verbatim>\<open>doPrepare\<close> returns a thenable that is
  still pending.  \<open>hasChangeListener name\<close> says that \<^verbatim>\<open>onChange[name]\<close> is defined.
  The lifecycle hooks (\<^verbatim>\<open>onAppear\<close>, \<^verbatim>\<open>onMount\<close>, \<^verbatim>\<open>onUnmount\<close>,
  \<^verbatim>\<open>onDisappear\<close>, \<^verbatim>\<open>onReceiveContext\<close>, \<^verbatim>\<open>onCachedRender\<close>) and the change
  listeners are observed: every call is recorded in the world's list of events.
\<close>

record methods =
  doPrepare :: "(string \<times> jsval) list \<Rightarrow> script"
  doPrepareAsync :: "(string \<times> jsval) list \<Rightarrow> bool"
  doRender :: "jsval \<Rightarrow> jsval \<Rightarrow> (string \<times> jsval) list \<Rightarrow> script"
  doRenderPending :: "jsval \<Rightarrow> (string \<times> jsval) list \<Rightarrow> script"
  doRenderError :: "jsval \<Rightarrow> exn \<Rightarrow> (string \<times> jsval) list \<Rightarrow> script"
  shouldPrepare :: "string list \<Rightarrow> bool"
  shouldRender :: "jsval \<Rightarrow> jsval \<Rightarrow> (string \<times> jsval) list \<Rightarrow> bool"
  shouldWaitForChildren :: "(string \<times> jsval) list \<Rightarrow> bool"
  shouldInterruptRender :: "nat \<Rightarrow> int \<Rightarrow> int \<Rightarrow> bool"
  getPrepareContextModifications :: "(string \<times> jsval) list \<Rightarrow> (string \<times> jsval) list option"
  getContextModifications :: "jsval \<Rightarrow> (string \<times> jsval) list \<Rightarrow> (string \<times> jsval) list option"
  hasChangeListener :: "string \<Rightarrow> bool"

datatype event =
    OnAppear cid
  | OnMount cid
  | OnUnmount cid
  | OnDisappear cid
  | OnReceiveContext cid "Context option"
  | OnCachedRender cid jsval
  | OnChange cid string jsval jsval
  | ResolveWaiter cid nat
  | DoPrepare cid
  | DoRender cid jsval jsval
  | DoRenderPending cid jsval
  | DoRenderError cid jsval exn

subsection \<open>The internal data of a component\<close>

text \<open>
  \<^verbatim>\<open>data.flags\<close> packs the phase (three bits) and eight boolean flags into one number;
  the record has one field for each (\<^verbatim>\<open>FLAG_MOUNTED\<close> is \<open>MOUNTED\<close>, and so on), and
  \<^verbatim>\<open>setPhaseFlags(flags, phase)\<close> is the update of \<open>phase\<close>.
\<close>

record flags =
  phase :: phase
  MOUNTED :: bool
  PREPARED :: bool
  KEPT_MOUNTED :: bool
  AVOID_RENDER_AFTER_RENDER :: bool
  NEEDS_RENDER_AFTER_RENDER :: bool
  NEEDS_PREPARE_AFTER_PREPARE :: bool
  ERROR_DURING_INITIALIZE :: bool
  RENDER_ROOT_WAS_INTERRUPTED :: bool

text \<open>\<^verbatim>\<open>type ChildrenData\<close>; \<^verbatim>\<open>data.childrenData\<close> is \<^verbatim>\<open>null\<close> until
  \<^verbatim>\<open>getChildrenData\<close> creates it.\<close>

record childrenData =
  prepareChildren :: children
  renderedChildren :: children
  modifiedPrepareContextCache :: "modCache option"
  modifiedContextCache :: "modCache option"

text \<open>
  \<^verbatim>\<open>class RebackInternalData\<close>, with the component's \<^verbatim>\<open>state\<close>.  References to other
  components (\<^verbatim>\<open>_renderParent\<close> and \<^verbatim>\<open>_renderParentData\<close>, set together) are their
  ids.  \<^verbatim>\<open>_currentlyUsedCache\<close> is the reference of an entry.  \<^verbatim>\<open>_prepare\<close> is the
  reference of the promise of the running preparation and whether it is still pending.
  The promises \<^verbatim>\<open>_pendingRender\<close> and \<^verbatim>\<open>_pendingCompleteRender\<close> are only created
  and resolved by the engine: the fields say whether one is there.  The lazily created
  \<^verbatim>\<open>uncommonData\<close> and \<^verbatim>\<open>rootData\<close> are kept as fields that hold their initial
  values (\<^verbatim>\<open>renderError: null\<close>, no waiters, counters 0, no timeout) until written;
  a waiter is the value it waits for and the number of its \<^verbatim>\<open>resolve\<close> callback.
  \<^verbatim>\<open>_boundContext\<close>, a memoised clone of \<^verbatim>\<open>_context\<close> that records reads, is left
  out: \<open>contextGet\<close> below reads through \<open>ctx\<close> and records the read.
\<close>

record data =
  flags :: flags
  changedAttributesSincePrepare :: "string list option"
  ctx :: "Context option"
  currentlyUsedCache :: "nat option"
  prepare :: "(nat \<times> bool) option"
  prepareResult :: jsval
  renderCache :: renderCache
  renderParent :: "cid option"
  renderResult :: jsval
  usedContextAttributes :: "nat list"
  childrenData :: "childrenData option"
  pendingRender :: bool
  pendingCompleteRender :: bool
  methods :: methods
  renderError :: "exn option"
  stateWaiters :: "(string \<times> (jsval \<times> nat) option list) list"
  interruptGeneration :: nat
  componentCount :: int
  needsRenderTimeout :: bool
  state :: "(string \<times> jsval) list"

text \<open>The constructor of \<^verbatim>\<open>Component\<close>: \<open>initError\<close> is the error
  \<^verbatim>\<open>initialize\<close> threw, if it threw.\<close>

definition newData :: "methods \<Rightarrow> renderCache \<Rightarrow> (string \<times> jsval) list \<Rightarrow> exn option \<Rightarrow> data" where
  "newData m cache defaults initError =
     \<lparr>flags = \<lparr>phase = CREATING, MOUNTED = False, PREPARED = False, KEPT_MOUNTED = False,
         AVOID_RENDER_AFTER_RENDER = False, NEEDS_RENDER_AFTER_RENDER = False,
         NEEDS_PREPARE_AFTER_PREPARE = False, ERROR_DURING_INITIALIZE = (initError \<noteq> None),
         RENDER_ROOT_WAS_INTERRUPTED = False\<rparr>,
      changedAttributesSincePrepare = None,
      ctx = None,
      currentlyUsedCache = None,
      prepare = None,
      prepareResult = JNull,
      renderCache = cache,
      renderParent = None,
      renderResult = JNull,
      usedContextAttributes = [],
      childrenData = None,
      pendingRender = True,
      pendingCompleteRender = True,
      methods = m,
      renderError = initError,
      stateWaiters = [],
      interruptGeneration = 0,
      componentCount = 0,
      needsRenderTimeout = False,
      state = defaults\<rparr>"

text \<open>The virtual methods as \<^verbatim>\<open>class Component\<close> defines them.\<close>

definition defaultMethods :: methods where
  "defaultMethods =
     \<lparr>doPrepare = (\<lambda>st. Return JNull),
      doPrepareAsync = (\<lambda>st. False),
      doRender = (\<lambda>arg pr st. Return JUndefined),
      doRenderPending = (\<lambda>arg st. Return JUndefined),
      doRenderError = (\<lambda>arg err st. Throw err),
      shouldPrepare = (\<lambda>changedAttributes. length changedAttributes > 0),
      shouldRender = (\<lambda>arg pr st. False),
      shouldWaitForChildren = (\<lambda>st. False),
      shouldInterruptRender = (\<lambda>generation time components. False),
      getPrepareContextModifications = (\<lambda>st. None),
      getContextModifications = (\<lambda>pr st. None),
      hasChangeListener = (\<lambda>name. False)\<rparr>"

text \<open>A component of a class with the given methods and the default cache (not hashed,
  \<^verbatim>\<open>getMaxRenderCacheSize() = 1\<close>), as its constructor leaves it.\<close>

definition newComponent :: "methods \<Rightarrow> (string \<times> jsval) list \<Rightarrow> data" where
  "newComponent m defaults = newData m (newRenderCache False 1 (\<lambda>arg. [])) defaults None"

subsection \<open>The module state\<close>

text \<open>\<^verbatim>\<open>const renderState = {...}\<close>.\<close>

record renderState =
  isRendering :: bool
  isRenderInterrupted :: bool
  lastRenderWasInterrupted :: bool
  lastRenderComponentCount :: int
  renderStartTime :: nat
  renderInterruptGeneration :: nat
  renderComponentCount :: int

text \<open>
  Everything the module and its components hold: the data of the components that have
  been touched, by id (\<open>comps\<close> below reads it; a component that is not in the list is
  an instance of the base class as its constructor left it), the render
  state, the render stack (\<^verbatim>\<open>renderStack\<close> and \<^verbatim>\<open>renderStackData\<close> run in step, one
  list of ids stands for both), the table \<^verbatim>\<open>interruptedComponents\<close> from root ids to
  the interrupted components, the list \<^verbatim>\<open>unmountedComponents\<close>, whether the two
  scheduled callbacks are outstanding, the table of context names, the next unused
  reference, the clock \<^verbatim>\<open>now()\<close> reads, and the hook calls observed so far.
\<close>

record world =
  compList :: "(cid \<times> data) list"
  renderState :: renderState
  renderStack :: "cid list"
  interruptedComponents :: "(cid \<times> cid list) list"
  rerenderInterruptedTimeout :: bool
  unmountedComponents :: "cid list"
  disappearHandlersTimeout :: bool
  contextNamesByKey :: "string list"
  nextRef :: nat
  clock :: nat
  events :: "event list"

definition comps :: "world \<Rightarrow> cid \<Rightarrow> data" where
  "comps w c = (case map_of (compList w) c of Some d \<Rightarrow> d | None \<Rightarrow> newComponent defaultMethods [])"

definition upd :: "cid \<Rightarrow> (data \<Rightarrow> data) \<Rightarrow> world \<Rightarrow> world" where
  "upd c f w = w\<lparr>compList := AList.update c (f (comps w c)) (compList w)\<rparr>"

definition emit :: "event \<Rightarrow> world \<Rightarrow> world" where
  "emit e w = w\<lparr>events := events w @ [e]\<rparr>"

definition setPhase :: "phase \<Rightarrow> data \<Rightarrow> data" where
  "setPhase p d = d\<lparr>flags := (flags d)\<lparr>phase := p\<rparr>\<rparr>"

definition getCurrentRenderRoot :: "world \<Rightarrow> cid option" where
  "getCurrentRenderRoot w = (case renderStack w of [] \<Rightarrow> None | c # cs \<Rightarrow> Some c)"

definition getCurrentRenderParent :: "world \<Rightarrow> cid option" where
  "getCurrentRenderParent w = (if renderStack w = [] then None else Some (last (renderStack w)))"

definition pushToRenderStack :: "cid \<Rightarrow> world \<Rightarrow> world" where
  "pushToRenderStack c w = w\<lparr>renderStack := renderStack w @ [c]\<rparr>"

definition popFromRenderStack :: "world \<Rightarrow> world" where
  "popFromRenderStack w = w\<lparr>renderStack := butlast (renderStack w)\<rparr>"

text \<open>\<^verbatim>\<open>resetState()\<close> returns the old values (the seven fields and a copy of the
  stack) and resets five of the fields and the stack; \<^verbatim>\<open>restoreState(oldState)\<close>
  writes all of them back.\<close>

definition resetState :: "world \<Rightarrow> (renderState \<times> cid list) \<times> world" where
  "resetState w =
     ((renderState w, renderStack w),
      w\<lparr>renderState := (renderState w)\<lparr>isRendering := False, isRenderInterrupted := False,
            lastRenderWasInterrupted := False, lastRenderComponentCount := 0,
            renderComponentCount := 0\<rparr>,
        renderStack := []\<rparr>)"

definition restoreState :: "renderState \<times> cid list \<Rightarrow> world \<Rightarrow> world" where
  "restoreState oldState w =
     w\<lparr>renderState := (renderState w)\<lparr>isRendering := isRendering (fst oldState),
            isRenderInterrupted := isRenderInterrupted (fst oldState),
            lastRenderWasInterrupted := lastRenderWasInterrupted (fst oldState),
            lastRenderComponentCount := lastRenderComponentCount (fst oldState),
            renderStartTime := renderStartTime (fst oldState),
            renderInterruptGeneration := renderInterruptGeneration (fst oldState),
            renderComponentCount := renderComponentCount (fst oldState)\<rparr>,
       renderStack := snd oldState\<rparr>"

definition getChildrenData :: "data \<Rightarrow> childrenData" where
  "getChildrenData d =
     (case childrenData d of
        Some cd \<Rightarrow> cd
      | None \<Rightarrow> \<lparr>prepareChildren = [], renderedChildren = [],
                  modifiedPrepareContextCache = None, modifiedContextCache = None\<rparr>)"

section \<open>Cache invalidation, render requests and state changes\<close>

text \<open>The functions of Component.ts whose names start with an underscore are named
  \<open>u_\<close> here.  A function that recurses along the render tree takes fuel and returns
  \<open>None\<close> when it runs out: the source has no bound on that recursion.\<close>

definition u_invalidatePrepareCache :: "data \<Rightarrow> data" where
  "u_invalidatePrepareCache d =
     d\<lparr>prepare := None,
       flags := (flags d)\<lparr>PREPARED := False\<rparr>,
       prepareResult := JNull,
       childrenData := (case childrenData d of
                          None \<Rightarrow> None
                        | Some cd \<Rightarrow> Some (cd\<lparr>prepareChildren := []\<rparr>))\<rparr>"

definition u_invalidateRenderCache :: "data \<Rightarrow> data" where
  "u_invalidateRenderCache d =
     d\<lparr>renderCache := rcEmpty (renderCache d),
       currentlyUsedCache := None,
       renderError := (if \<not> ERROR_DURING_INITIALIZE (flags d) then None else renderError d)\<rparr>"

definition u_resetPendingRender :: "data \<Rightarrow> data" where
  "u_resetPendingRender d = d\<lparr>pendingRender := True, pendingCompleteRender := True\<rparr>"

text \<open>\<^verbatim>\<open>_forceRender\<close>, \<^verbatim>\<open>_requestRender\<close> and \<^verbatim>\<open>_forcePrepare\<close> call each other up
  the chain of render parents.  At a component without a parent \<^verbatim>\<open>_requestRender\<close>
  schedules the batched callback, unless one is scheduled.\<close>

fun u_forceRender :: "nat \<Rightarrow> cid \<Rightarrow> bool \<Rightarrow> world \<Rightarrow> world option"
and u_requestRender :: "nat \<Rightarrow> cid \<Rightarrow> world \<Rightarrow> world option"
and u_forcePrepare :: "nat \<Rightarrow> cid \<Rightarrow> world \<Rightarrow> world option" where
  "u_forceRender 0 that notDuringRender w = None"
| "u_forceRender (Suc n) that notDuringRender w =
     (let w1 = upd that u_invalidateRenderCache w;
          fl = flags (comps w1 that)
      in if phase fl = RENDERING \<and> \<not> AVOID_RENDER_AFTER_RENDER fl \<and> \<not> notDuringRender
         then Some (upd that (\<lambda>d. d\<lparr>flags := (flags d)\<lparr>NEEDS_RENDER_AFTER_RENDER := True\<rparr>\<rparr>) w1)
         else if phase fl \<noteq> RENDERED \<and> phase fl \<noteq> RESTORING then Some w1
         else u_requestRender n that (upd that u_resetPendingRender w1))"
| "u_requestRender 0 that w = None"
| "u_requestRender (Suc n) that w =
     (case renderParent (comps w that) of
        Some parent \<Rightarrow>
          (case childrenData (comps w parent) of
             Some cd \<Rightarrow>
               if map_of (prepareChildren cd) that \<noteq> None
               then u_forcePrepare n parent w
               else u_forceRender n parent False w
           | None \<Rightarrow> u_forceRender n parent False w)
      | None \<Rightarrow>
          Some (if \<not> needsRenderTimeout (comps w that)
                then upd that (\<lambda>d. d\<lparr>needsRenderTimeout := True\<rparr>) w
                else w))"
| "u_forcePrepare 0 that w = None"
| "u_forcePrepare (Suc n) that w =
     (let ph = phase (flags (comps w that))
      in if ph = PREPARING
         then Some (upd that (\<lambda>d. d\<lparr>flags := (flags d)\<lparr>NEEDS_PREPARE_AFTER_PREPARE := True\<rparr>\<rparr>) w)
         else if ph \<noteq> RENDERED \<and> ph \<noteq> RESTORING \<and> ph \<noteq> RENDERING then Some w
         else u_forceRender n that False (upd that u_invalidatePrepareCache w))"

text \<open>The waiters of one attribute: those whose value is \<^verbatim>\<open>===\<close> the new value are
  collected for resolution and overwritten with \<^verbatim>\<open>null\<close>.\<close>

fun collectWaiters :: "jsval \<Rightarrow> (jsval \<times> nat) option list \<Rightarrow> (jsval \<times> nat) option list \<times> nat list" where
  "collectWaiters v [] = ([], [])"
| "collectWaiters v (waiter # waiters) =
     (let (ws, rs) = collectWaiters v waiters
      in case waiter of
           Some (wv, resolve) \<Rightarrow>
             if strictEq v wv then (None # ws, resolve # rs) else (waiter # ws, rs)
         | None \<Rightarrow> (waiter # ws, rs))"

definition setAdd :: "string \<Rightarrow> string list \<Rightarrow> string list" where
  "setAdd name xs = (if name \<in> set xs then xs else xs @ [name])"

text \<open>The loop of \<^verbatim>\<open>_setState\<close> over the own properties of \<^verbatim>\<open>values\<close>, with
  \<^verbatim>\<open>hasChanged\<close> and \<^verbatim>\<open>allWaiters\<close> as accumulators.\<close>

fun setStateLoop :: "cid \<Rightarrow> (string \<times> jsval) list \<Rightarrow> string list \<Rightarrow> bool \<Rightarrow> nat list \<Rightarrow> world
    \<Rightarrow> bool \<times> nat list \<times> world" where
  "setStateLoop that vals [] hasChanged allWaiters w = (hasChanged, allWaiters, w)"
| "setStateLoop that vals (name # names) hasChanged allWaiters w =
     (let v = jsGet vals name;
          oldValue = jsGet (state (comps w that)) name
      in if \<not> strictEq oldValue v \<and> \<not> (isNaN oldValue \<and> isNaN v) then
           (let w1 = upd that (\<lambda>d. d\<lparr>state := AList.update name v (state d)\<rparr>) w;
                w2 = (if hasChangeListener (methods (comps w1 that)) name
                      then emit (OnChange that name v oldValue) w1 else w1);
                w3 = (if phaseNum (phase (flags (comps w2 that))) > phaseNum MOUNTING
                      then upd that (\<lambda>d. d\<lparr>changedAttributesSincePrepare :=
                             Some (setAdd name (case changedAttributesSincePrepare d of
                                                  None \<Rightarrow> [] | Some xs \<Rightarrow> xs))\<rparr>) w2
                      else w2);
                (w4, resolved) =
                   (case map_of (stateWaiters (comps w3 that)) name of
                      None \<Rightarrow> (w3, [])
                    | Some waiters \<Rightarrow>
                        (let (ws, rs) = collectWaiters v waiters
                         in (upd that (\<lambda>d. d\<lparr>stateWaiters :=
                                  AList.update name ws (stateWaiters d)\<rparr>) w3, rs)))
            in setStateLoop that vals names True (allWaiters @ resolved) w4)
         else setStateLoop that vals names hasChanged allWaiters w)"

text \<open>\<^verbatim>\<open>_setState(that, data, state, onChange, values)\<close>.\<close>

definition u_setState :: "nat \<Rightarrow> cid \<Rightarrow> (string \<times> jsval) list \<Rightarrow> world \<Rightarrow> world option" where
  "u_setState fuel that vals w =
     (let (hasChanged, allWaiters, w1) = setStateLoop that vals (map fst vals) False [] w
      in if hasChanged
         then u_forceRender fuel that False (fold (\<lambda>r. emit (ResolveWaiter that r)) allWaiters w1)
         else Some w1)"

section \<open>Mounting, unmounting and contexts\<close>

definition indexOf :: "string list \<Rightarrow> string \<Rightarrow> nat option" where
  "indexOf names name =
     (if name \<in> set names then Some (length (takeWhile (\<lambda>n. n \<noteq> name) names)) else None)"

text \<open>\<^verbatim>\<open>this.getContext().get(name)\<close>: \<^verbatim>\<open>getContext\<close> returns the context bound to
  the component, whose \<^verbatim>\<open>get\<close> finds or creates the numeric key of the name, sets its
  bit in the component's used attributes and returns the attribute.  Without a context
  \<^verbatim>\<open>getContext\<close> returns \<^verbatim>\<open>null\<close> and the call of \<^verbatim>\<open>get\<close> throws.\<close>

definition contextGet :: "cid \<Rightarrow> string \<Rightarrow> world \<Rightarrow> (exn + jsval) \<times> world" where
  "contextGet that name w =
     (case ctx (comps w that) of
        None \<Rightarrow> (Inl (Error ''TypeError''), w)
      | Some c \<Rightarrow>
          (let (key, w1) =
                 (case indexOf (contextNamesByKey w) name of
                    Some k \<Rightarrow> (k, w)
                  | None \<Rightarrow> (length (contextNamesByKey w),
                             w\<lparr>contextNamesByKey := contextNamesByKey w @ [name]\<rparr>))
           in (Inr (jsGet (attributes c) name),
               upd that (\<lambda>d. d\<lparr>usedContextAttributes := setBit (usedContextAttributes d) key\<rparr>) w1)))"

text \<open>\<^verbatim>\<open>getModifiedContext()\<close>, with the world after it: the two modification caches
  are written and context objects may be constructed.\<close>

definition getModifiedContext :: "cid \<Rightarrow> world \<Rightarrow> Context \<times> world" where
  "getModifiedContext this w =
     (let d = comps w this;
          base = (case ctx d of Some c \<Rightarrow> c | None \<Rightarrow> emptyContext);
          prepareModifications = getPrepareContextModifications (methods d) (state d);
          cd = getChildrenData d;
          (prepareContext, cache1, fresh1) =
             applyModificationsCached base prepareModifications
               (modifiedPrepareContextCache cd) (nextRef w);
          cd1 = cd\<lparr>modifiedPrepareContextCache := cache1\<rparr>
      in if \<not> PREPARED (flags d)
         then (prepareContext, (upd this (\<lambda>d. d\<lparr>childrenData := Some cd1\<rparr>) w)\<lparr>nextRef := fresh1\<rparr>)
         else (let modifications = getContextModifications (methods d) (prepareResult d) (state d);
                   (result, cache2, fresh2) =
                      applyModificationsCached prepareContext modifications
                        (modifiedContextCache cd1) fresh1
               in (result,
                   (upd this (\<lambda>d. d\<lparr>childrenData := Some (cd1\<lparr>modifiedContextCache := cache2\<rparr>)\<rparr>) w)
                     \<lparr>nextRef := fresh2\<rparr>)))"

text \<open>\<^verbatim>\<open>_updateContext(that, data, parent, givenContext)\<close>.\<close>

definition u_updateContext :: "cid \<Rightarrow> cid option \<Rightarrow> Context option \<Rightarrow> world \<Rightarrow> world" where
  "u_updateContext that parent givenContext w =
     (let prevContext = ctx (comps w that);
          (context', w1) =
             (case givenContext of
                Some c \<Rightarrow> (c, w)
              | None \<Rightarrow> (case parent of
                           Some p \<Rightarrow> getModifiedContext p w
                         | None \<Rightarrow> (emptyContext, w)))
      in if (case prevContext of Some p \<Rightarrow> ctxId p \<noteq> ctxId context' | None \<Rightarrow> True) then
           (let w2 = upd that (\<lambda>d. d\<lparr>ctx := Some context'\<rparr>) w1;
                w3 = (if didContextChange (contextNamesByKey w2) (Some context') prevContext
                           (usedContextAttributes (comps w2 that))
                      then upd that (\<lambda>d. u_invalidateRenderCache (u_invalidatePrepareCache d)) w2
                      else w2)
            in if \<not> ERROR_DURING_INITIALIZE (flags (comps w3 that))
               then emit (OnReceiveContext that prevContext) w3
               else w3)
         else w1)"

definition scheduleDisappearHandlers :: "world \<Rightarrow> world" where
  "scheduleDisappearHandlers w =
     (if \<not> disappearHandlersTimeout w then w\<lparr>disappearHandlersTimeout := True\<rparr> else w)"

text \<open>The callback \<^verbatim>\<open>scheduleDisappearHandlers\<close> hands to the scheduler, run by the
  scheduler one tick later.\<close>

definition disappearHandlers :: "world \<Rightarrow> world" where
  "disappearHandlers w =
     (fold (\<lambda>component w'. if \<not> MOUNTED (flags (comps w' component))
                            then emit (OnDisappear component) w' else w')
        (unmountedComponents w) (w\<lparr>disappearHandlersTimeout := False\<rparr>))
       \<lparr>unmountedComponents := []\<rparr>"

fun foldOpt :: "('a \<Rightarrow> 's \<Rightarrow> 's option) \<Rightarrow> 'a list \<Rightarrow> 's \<Rightarrow> 's option" where
  "foldOpt f [] s = Some s"
| "foldOpt f (x # xs) s = (case f x s of None \<Rightarrow> None | Some s' \<Rightarrow> foldOpt f xs s')"

text \<open>\<^verbatim>\<open>_unmountFromParent(that, data, parent)\<close>.\<close>

fun u_unmountFromParent :: "nat \<Rightarrow> cid \<Rightarrow> cid option \<Rightarrow> world \<Rightarrow> world option" where
  "u_unmountFromParent 0 that parent w = None"
| "u_unmountFromParent (Suc n) that parent w =
     (let isMountedIntoAnotherParent = (renderParent (comps w that) \<noteq> parent)
      in if \<not> isMountedIntoAnotherParent then
           (case (case childrenData (comps w that) of
                    Some cd \<Rightarrow>
                      foldOpt (\<lambda>child. u_unmountFromParent n child (Some that))
                        (map fst (renderedChildren cd)) w
                  | None \<Rightarrow> Some w) of
              None \<Rightarrow> None
            | Some w1 \<Rightarrow>
                (let w2 = upd that (\<lambda>d. u_invalidateRenderCache
                                          (u_invalidatePrepareCache (setPhase UNMOUNTING d))) w1;
                     w3 = (if \<not> ERROR_DURING_INITIALIZE (flags (comps w2 that))
                           then emit (OnUnmount that) w2 else w2);
                     w4 = upd that (\<lambda>d. d\<lparr>flags := (flags d)\<lparr>MOUNTED := False\<rparr>,
                                          renderParent := None\<rparr>) w3
                 in Some (if \<not> ERROR_DURING_INITIALIZE (flags (comps w4 that))
                          then scheduleDisappearHandlers
                                 (w4\<lparr>unmountedComponents := unmountedComponents w4 @ [that]\<rparr>)
                          else w4)))
         else Some w)"

text \<open>\<^verbatim>\<open>_remount(that, data, wasMounted, prevParent, newParent, context)\<close>.\<close>

definition u_remount ::
  "nat \<Rightarrow> cid \<Rightarrow> bool \<Rightarrow> cid option \<Rightarrow> cid option \<Rightarrow> Context option \<Rightarrow> world \<Rightarrow> world option" where
  "u_remount fuel that wasMounted prevParent newParent context' w =
     (case (if wasMounted then u_unmountFromParent fuel that prevParent w else Some w) of
        None \<Rightarrow> None
      | Some w1 \<Rightarrow>
          (let w2 = u_updateContext that newParent context' w1
           in if \<not> ERROR_DURING_INITIALIZE (flags (comps w2 that))
              then Some (emit (OnMount that) (if \<not> wasMounted then emit (OnAppear that) w2 else w2))
              else Some w2))"

text \<open>\<^verbatim>\<open>_enterRender(that, data, context)\<close>.\<close>

definition u_enterRender :: "nat \<Rightarrow> cid \<Rightarrow> Context option \<Rightarrow> world \<Rightarrow> world option" where
  "u_enterRender fuel that context' w =
     (let w1 = upd that (\<lambda>d. (setPhase MOUNTING (d\<lparr>flags := (flags d)\<lparr>KEPT_MOUNTED := False\<rparr>\<rparr>))
                              \<lparr>pendingRender := False\<rparr>) w;
          prevParent = renderParent (comps w1 that);
          newParent = getCurrentRenderParent w1;
          wasMounted = MOUNTED (flags (comps w1 that));
          w2 = upd that (\<lambda>d. d\<lparr>flags := (flags d)\<lparr>MOUNTED := True,
                                   NEEDS_RENDER_AFTER_RENDER := False\<rparr>,
                               renderParent := newParent\<rparr>) w1
      in if newParent \<noteq> prevParent \<or> (newParent = None \<and> \<not> wasMounted)
         then u_remount fuel that wasMounted prevParent newParent context' w2
         else Some (u_updateContext that newParent context' w2))"

section \<open>Rendering\<close>

text \<open>The result of a call that may throw: the thrown value on the left, with the world
  as the call left it.  \<open>rend\<close> stands for the two entry points a hook can call,
  \<^verbatim>\<open>renderRoot\<close> (first argument \<open>True\<close>) and \<^verbatim>\<open>render\<close>; it is the engine itself
  with less fuel (see \<open>engine\<close> below).\<close>

type_synonym 'a outcome = "((exn + 'a) \<times> world) option"

type_synonym rend =
  "bool \<Rightarrow> cid \<Rightarrow> jsval \<Rightarrow> Context option \<Rightarrow> bool \<Rightarrow> bool \<Rightarrow> world \<Rightarrow> jsval outcome"

primrec runScript :: "script \<Rightarrow> rend \<Rightarrow> nat \<Rightarrow> cid \<Rightarrow> world \<Rightarrow> jsval outcome" where
  "runScript (Return v) rend fuel this w = Some (Inr v, w)"
| "runScript (Throw e) rend fuel this w = Some (Inl e, w)"
| "runScript (Render child arg isRequired isOptional k) rend fuel this w =
     (case rend False child arg None isRequired isOptional w of
        None \<Rightarrow> None
      | Some (Inl e, w1) \<Rightarrow> Some (Inl e, w1)
      | Some (Inr v, w1) \<Rightarrow> runScript (k v) rend fuel this w1)"
| "runScript (RenderRoot other arg k) rend fuel this w =
     (case rend True other arg None False False w of
        None \<Rightarrow> None
      | Some (Inl e, w1) \<Rightarrow> Some (Inl e, w1)
      | Some (Inr v, w1) \<Rightarrow> runScript (k v) rend fuel this w1)"
| "runScript (GetContext name k) rend fuel this w =
     (case contextGet this name w of
        (Inl e, w1) \<Rightarrow> Some (Inl e, w1)
      | (Inr v, w1) \<Rightarrow> runScript (k v) rend fuel this w1)"
| "runScript (SetState vals k) rend fuel this w =
     (case u_setState fuel this vals w of
        None \<Rightarrow> None
      | Some w1 \<Rightarrow> runScript k rend fuel this w1)"
| "runScript (Tick n k) rend fuel this w = runScript k rend fuel this (w\<lparr>clock := clock w + n\<rparr>)"

text \<open>\<^verbatim>\<open>_childFinishedRender(thisData, childData, child, result)\<close>: the parent gets a new
  \<^verbatim>\<open>ChildInfo\<close> object for the child and the child's used context attributes.\<close>

definition u_childFinishedRender :: "cid \<Rightarrow> cid \<Rightarrow> jsval \<Rightarrow> world \<Rightarrow> world" where
  "u_childFinishedRender this child result w =
     (let childData = comps w child;
          info = CacheEntry (nextRef w) result child
                   (case childrenData childData of
                      Some cd \<Rightarrow> Some (renderedChildren cd) | None \<Rightarrow> None)
                   (ctx childData) (usedContextAttributes childData) 0
      in (upd this (\<lambda>d. d\<lparr>childrenData :=
                             Some ((getChildrenData d)\<lparr>renderedChildren :=
                                     AList.update child info (renderedChildren (getChildrenData d))\<rparr>),
                           usedContextAttributes :=
                             addUsedContextAttributes (usedContextAttributes d)
                               (usedContextAttributes childData)\<rparr>) w)
           \<lparr>nextRef := Suc (nextRef w)\<rparr>)"

text \<open>\<^verbatim>\<open>_useCache(data, that, cacheEntry)\<close>.\<close>

fun u_useCache :: "nat \<Rightarrow> cid \<Rightarrow> cacheEntry \<Rightarrow> world \<Rightarrow> world option" where
  "u_useCache 0 that cacheEntry w = None"
| "u_useCache (Suc n) that cacheEntry w =
     (let result = ceResult cacheEntry;
          children' = ceChildren cacheEntry;
          used = ceUsed cacheEntry;
          w1 = upd that (\<lambda>d. d\<lparr>renderResult := result,
                  childrenData :=
                    (case children' of
                       Some ch \<Rightarrow> Some ((getChildrenData d)\<lparr>renderedChildren := ch\<rparr>)
                     | None \<Rightarrow> (case childrenData d of
                                  Some cd \<Rightarrow> Some (cd\<lparr>renderedChildren := []\<rparr>)
                                | None \<Rightarrow> None)),
                  usedContextAttributes := used\<rparr>) w;
          w2 = (case renderParent (comps w1 that) of
                  Some parent \<Rightarrow>
                    upd parent (\<lambda>d. d\<lparr>usedContextAttributes :=
                                  addUsedContextAttributes (usedContextAttributes d) used\<rparr>) w1
                | None \<Rightarrow> w1);
          w3 = emit (OnCachedRender that result) w2
      in if currentlyUsedCache (comps w3 that) = Some (entryId cacheEntry) then Some w3
         else
           (let w4 = upd that (\<lambda>d. d\<lparr>currentlyUsedCache := Some (entryId cacheEntry)\<rparr>) w3
            in case children' of
                 None \<Rightarrow> Some w4
               | Some ch \<Rightarrow>
                   foldOpt (\<lambda>entry w5.
                       (let child = ceInstance entry;
                            childData = comps w5 child
                        in case (if renderParent childData \<noteq> Some that then
                                   (let wasMounted = MOUNTED (flags childData);
                                        prevParent = renderParent childData;
                                        w6 = upd child (\<lambda>d. d\<lparr>renderParent := Some that,
                                               flags := (flags d)\<lparr>MOUNTED := True,
                                                                  phase := RESTORING\<rparr>\<rparr>) w5
                                    in u_remount n child wasMounted prevParent (Some that) None w6)
                                 else Some w5) of
                             None \<Rightarrow> None
                           | Some w7 \<Rightarrow> u_useCache n child entry (upd child (setPhase RENDERED) w7)))
                     (map snd ch) w4))"

text \<open>\<^verbatim>\<open>_doPrepare(data, that)\<close> returns the error to throw or \<^verbatim>\<open>null\<close>.  A
  \<^verbatim>\<open>SyncPromise\<close> that is settled already counts as its value or its exception, so the
  hook's script returns or throws in that case; a thenable that is still pending is stored
  in \<^verbatim>\<open>_prepare\<close> under a new reference and the pending signal is the error.\<close>

definition u_doPrepare :: "nat \<Rightarrow> rend \<Rightarrow> cid \<Rightarrow> world \<Rightarrow> (exn option \<times> world) option" where
  "u_doPrepare fuel rend that w =
     (let w1 = upd that (\<lambda>d. d\<lparr>flags := (flags d)\<lparr>PREPARED := False,
                                   NEEDS_PREPARE_AFTER_PREPARE := False,
                                   phase := PREPARING\<rparr>\<rparr>) w;
          d1 = comps w1 that
      in case runScript (doPrepare (methods d1) (state d1)) rend fuel that (emit (DoPrepare that) w1) of
           None \<Rightarrow> None
         | Some (Inl e, w2) \<Rightarrow> Some (Some e, upd that (\<lambda>d. d\<lparr>prepare := None\<rparr>) w2)
         | Some (Inr result, w2) \<Rightarrow>
             if doPrepareAsync (methods d1) (state d1)
             then Some (Some RenderPending,
                        (upd that (\<lambda>d. d\<lparr>prepare := Some (nextRef w2, True)\<rparr>) w2)
                          \<lparr>nextRef := Suc (nextRef w2)\<rparr>)
             else Some (None,
                        upd that (\<lambda>d. d\<lparr>flags := (flags d)\<lparr>PREPARED := True\<rparr>,
                                         prepareResult := result,
                                         prepare := None\<rparr>) w2))"

text \<open>The \<^verbatim>\<open>do ... while (data.flags & FLAG_NEEDS_PREPARE_AFTER_PREPARE)\<close> loop of
  \<^verbatim>\<open>_doRender\<close>.\<close>

fun prepareLoop :: "nat \<Rightarrow> rend \<Rightarrow> cid \<Rightarrow> world \<Rightarrow> (exn option \<times> world) option" where
  "prepareLoop 0 rend that w = None"
| "prepareLoop (Suc n) rend that w =
     (case u_doPrepare n rend that w of
        None \<Rightarrow> None
      | Some (error, w1) \<Rightarrow>
          (let w2 = (case childrenData (comps w1 that) of
                       Some cd \<Rightarrow>
                         upd that (\<lambda>d. d\<lparr>childrenData := Some (cd\<lparr>prepareChildren := renderedChildren cd\<rparr>),
                                 usedContextAttributes :=
                                   fold (\<lambda>child u. addUsedContextAttributes u
                                                     (usedContextAttributes (comps w1 child)))
                                     (map fst (renderedChildren cd)) (usedContextAttributes d)\<rparr>) w1
                     | None \<Rightarrow> w1)
           in case error of
                Some e \<Rightarrow> Some (Some e, w2)
              | None \<Rightarrow>
                  if NEEDS_PREPARE_AFTER_PREPARE (flags (comps w2 that))
                  then prepareLoop n rend that w2
                  else Some (None, w2)))"

text \<open>\<^verbatim>\<open>_doRender(data, that, arg)\<close>.\<close>

definition u_doRender :: "nat \<Rightarrow> rend \<Rightarrow> cid \<Rightarrow> jsval \<Rightarrow> world \<Rightarrow> jsval outcome" where
  "u_doRender fuel rend that arg w =
     (let d = comps w that
      in if (case prepare d of Some (r, isPending) \<Rightarrow> isPending | None \<Rightarrow> False)
         then Some (Inl RenderPending, w)
         else
           (let changedAttrs = changedAttributesSincePrepare d
            in case (if \<not> PREPARED (flags d)
                        \<or> shouldPrepare (methods d) (case changedAttrs of None \<Rightarrow> [] | Some xs \<Rightarrow> xs)
                     then prepareLoop fuel rend that
                            (upd that (\<lambda>d. u_invalidateRenderCache
                                 (d\<lparr>usedContextAttributes := [],
                                    changedAttributesSincePrepare :=
                                      (case changedAttrs of None \<Rightarrow> None | Some xs \<Rightarrow> Some [])\<rparr>)) w)
                     else Some (None,
                            upd that (\<lambda>d. d\<lparr>childrenData :=
                                 (case childrenData d of
                                    Some cd \<Rightarrow> Some (cd\<lparr>renderedChildren := prepareChildren cd\<rparr>)
                                  | None \<Rightarrow> None)\<rparr>) w)) of
                 None \<Rightarrow> None
               | Some (Some e, w2) \<Rightarrow> Some (Inl e, w2)
               | Some (None, w2) \<Rightarrow>
                   (let d2 = comps w2 that;
                        cached = rcGetEntry (renderCache d2) arg
                    in if (case cached of
                             None \<Rightarrow> True
                           | Some ce \<Rightarrow>
                               didContextChange (contextNamesByKey w2) (ctx d2) (ceContext ce) (ceUsed ce)
                               \<or> shouldRender (methods d2) arg (prepareResult d2) (state d2))
                       then
                         (let w3 = upd that (setPhase RENDERING) w2;
                              previousCount = renderComponentCount (renderState w3)
                          in case runScript (doRender (methods d2) arg (prepareResult d2) (state d2))
                                    rend fuel that (emit (DoRender that arg (prepareResult d2)) w3) of
                               None \<Rightarrow> None
                             | Some (Inl e, w4) \<Rightarrow> Some (Inl e, w4)
                             | Some (Inr renderResult', w4) \<Rightarrow>
                                 if \<not> strictEq renderResult' RENDER_INTERRUPT
                                    \<and> \<not> NEEDS_RENDER_AFTER_RENDER (flags (comps w4 that))
                                 then
                                   (let d4 = comps w4 that;
                                        cacheEntry = CacheEntry (nextRef w4) renderResult' that
                                           (case childrenData d4 of
                                              Some cd \<Rightarrow> Some (renderedChildren cd) | None \<Rightarrow> None)
                                           (ctx d4) (usedContextAttributes d4)
                                           (renderComponentCount (renderState w4) - previousCount)
                                    in Some (Inr renderResult',
                                         (upd that (\<lambda>d. d\<lparr>renderCache := rcSetEntry (renderCache d) arg cacheEntry,
                                                           currentlyUsedCache := Some (nextRef w4)\<rparr>) w4)
                                           \<lparr>nextRef := Suc (nextRef w4)\<rparr>))
                                 else Some (Inr renderResult', w4))
                       else
                         (case cached of
                            None \<Rightarrow> None
                          | Some ce \<Rightarrow>
                              (case u_useCache fuel that ce w2 of
                                 None \<Rightarrow> None
                               | Some w3 \<Rightarrow>
                                   Some (Inr (ceResult ce),
                                         w3\<lparr>renderState := (renderState w3)\<lparr>renderComponentCount :=
                                              renderComponentCount (renderState w3) + descendantCount ce\<rparr>\<rparr>))))))"

text \<open>\<^verbatim>\<open>_unmountPreviousChildren(prevChildren, nextChildren, data, that)\<close>.\<close>

definition u_unmountPreviousChildren ::
  "nat \<Rightarrow> children \<Rightarrow> children option \<Rightarrow> cid \<Rightarrow> world \<Rightarrow> world option" where
  "u_unmountPreviousChildren fuel prevChildren nextChildren that w =
     foldOpt (\<lambda>child w'.
         if (case nextChildren of None \<Rightarrow> True | Some nc \<Rightarrow> map_of nc child = None)
         then u_unmountFromParent fuel child (Some that) w'
         else Some w')
       (map fst prevChildren) w"

text \<open>The recording of an interrupted component in \<^verbatim>\<open>_performRender\<close>: the table entry
  of the current render root is created if missing, the component is pushed, and the
  re-render of interrupted components is scheduled unless it is scheduled already.\<close>

definition recordInterrupted :: "cid \<Rightarrow> world \<Rightarrow> world" where
  "recordInterrupted that w =
     (case getCurrentRenderRoot w of
        Some root \<Rightarrow>
          w\<lparr>interruptedComponents :=
               AList.update root
                 ((case map_of (interruptedComponents w) root of None \<Rightarrow> [] | Some xs \<Rightarrow> xs) @ [that])
                 (interruptedComponents w),
            rerenderInterruptedTimeout := True\<rparr>
      | None \<Rightarrow> w)"

text \<open>\<^verbatim>\<open>_performRender(data, arg, error, isRequired, isOptional, keepExistingChildren,
  that)\<close> returns \<^verbatim>\<open>[isPending, renderResult, renderError]\<close>; an exception of
  \<^verbatim>\<open>doRenderPending\<close> is not caught and leaves the function as it is thrown.  With
  \<^verbatim>\<open>keepExistingChildren\<close> the variable \<^verbatim>\<open>prevChildren\<close> is the very \<^verbatim>\<open>Map\<close> the
  children of this render are written to, so copying it back is no change.\<close>

definition u_performRender ::
  "nat \<Rightarrow> rend \<Rightarrow> cid \<Rightarrow> jsval \<Rightarrow> exn option \<Rightarrow> bool \<Rightarrow> bool \<Rightarrow> bool \<Rightarrow> world
    \<Rightarrow> (bool \<times> jsval \<times> exn option) outcome" where
  "u_performRender fuel rend that arg error isRequired isOptional keepExistingChildren w =
     (let m = methods (comps w that);
          prevChildren = (case childrenData (comps w that) of
                            Some cd \<Rightarrow> Some (renderedChildren cd) | None \<Rightarrow> None);
          w1 = (if \<not> keepExistingChildren
                then upd that (\<lambda>d. d\<lparr>childrenData :=
                        (case childrenData d of
                           Some cd \<Rightarrow> Some (cd\<lparr>renderedChildren := []\<rparr>) | None \<Rightarrow> None)\<rparr>) w
                else w);
          w2 = upd that (setPhase RENDERING) (pushToRenderStack that w1);
          rs = renderState w2;
          newComponents = renderComponentCount rs - lastRenderComponentCount rs;
          mayInterrupt = (isRenderInterrupted rs \<or> \<not> lastRenderWasInterrupted rs \<or> newComponents > 0);
          shouldInterrupt =
            (if mayInterrupt
             then shouldInterruptRender m (renderInterruptGeneration rs)
                    (int (clock w2) - int (renderStartTime rs)) newComponents
             else False);
          w3 = (if shouldInterrupt \<and> \<not> isRenderInterrupted rs
                then w2\<lparr>renderState := rs\<lparr>isRenderInterrupted := True,
                          renderInterruptGeneration := Suc (renderInterruptGeneration rs)\<rparr>\<rparr>
                else w2)
      in case (if shouldInterrupt then Some (Inr RENDER_INTERRUPT, w3)
               else (case error of
                       Some err \<Rightarrow>
                         runScript (doRenderError m arg err (state (comps w3 that))) rend fuel that
                           (emit (DoRenderError that arg err) w3)
                     | None \<Rightarrow> u_doRender fuel rend that arg w3)) of
           None \<Rightarrow> None
         | Some (resultOrException, w4) \<Rightarrow>
             (let isInterrupted = (case resultOrException of
                                     Inr v \<Rightarrow> strictEq v RENDER_INTERRUPT | Inl e \<Rightarrow> False);
                  w5 = (if isInterrupted then recordInterrupted that w4 else w4);
                  parentData = renderParent (comps w5 that);
                  finish = (\<lambda>isPending renderResult' renderError' w8.
                     (let w9 = popFromRenderStack w8
                      in case (if \<not> keepExistingChildren then
                                 (case prevChildren of
                                    Some pc \<Rightarrow>
                                      u_unmountPreviousChildren fuel pc
                                        (case childrenData (comps w9 that) of
                                           Some cd \<Rightarrow> Some (renderedChildren cd) | None \<Rightarrow> None)
                                        that w9
                                  | None \<Rightarrow> Some w9)
                               else Some w9) of
                           None \<Rightarrow> None
                         | Some w10 \<Rightarrow>
                             Some (Inr (isPending, renderResult', renderError'),
                                   (case parentData of
                                      Some parent \<Rightarrow> u_childFinishedRender parent that renderResult' w10
                                    | None \<Rightarrow> w10))));
                  pendingPath = (\<lambda>w5.
                     (let w6 = (case prevChildren of
                                  Some pc \<Rightarrow>
                                    if keepExistingChildren then w5
                                    else upd that (\<lambda>d. d\<lparr>childrenData :=
                                           Some ((getChildrenData d)\<lparr>renderedChildren :=
                                              fold (\<lambda>(key, info). AList.update key info) pc
                                                (renderedChildren (getChildrenData d))\<rparr>)\<rparr>) w5
                                | None \<Rightarrow> w5)
                      in if isRequired
                            \<or> (case parentData of
                                  Some parent \<Rightarrow>
                                    \<not> isOptional
                                    \<and> shouldWaitForChildren (methods (comps w6 parent)) (state (comps w6 that))
                                | None \<Rightarrow> False)
                         then finish True JUndefined None w6
                         else (case runScript (doRenderPending m arg (state (comps w6 that))) rend fuel that
                                      (emit (DoRenderPending that arg) w6) of
                                 None \<Rightarrow> None
                               | Some (Inl e, w7) \<Rightarrow> Some (Inl e, w7)
                               | Some (Inr r, w7) \<Rightarrow> finish False r None w7)))
              in case resultOrException of
                   Inr v \<Rightarrow>
                     if \<not> isInterrupted
                     then finish False v None (upd that (\<lambda>d. d\<lparr>pendingCompleteRender := False\<rparr>) w5)
                     else pendingPath w5
                 | Inl RenderPending \<Rightarrow> pendingPath w5
                 | Inl (Error msg) \<Rightarrow> finish False JUndefined (Some (Error msg)) w5))"

text \<open>\<^verbatim>\<open>_render(that, data, arg, context, isRequired, isOptional, recursion)\<close>.\<close>

fun u_render :: "nat \<Rightarrow> rend \<Rightarrow> cid \<Rightarrow> jsval \<Rightarrow> Context option \<Rightarrow> bool \<Rightarrow> bool \<Rightarrow> nat \<Rightarrow> world
    \<Rightarrow> jsval outcome" where
  "u_render 0 rend that arg context' isRequired isOptional recursion w = None"
| "u_render (Suc n) rend that arg context' isRequired isOptional recursion w =
     (let previousRenderError = renderError (comps w that)
      in case u_performRender n rend that arg previousRenderError isRequired isOptional False w of
           None \<Rightarrow> None
         | Some (Inl e, w1) \<Rightarrow> Some (Inl e, w1)
         | Some (Inr (isPending, renderResult', renderError'), w1) \<Rightarrow>
             (case (if \<not> isPending \<and> renderError' \<noteq> None then
                      (case u_performRender n rend that arg renderError' isRequired isOptional True w1 of
                         None \<Rightarrow> None
                       | Some (Inl e, w2) \<Rightarrow> Some (Inl e, w2)
                       | Some (Inr (isPending2, renderResult2, repeatedError), w2) \<Rightarrow>
                           (case repeatedError of
                              Some e \<Rightarrow> Some (Inl e, w2)
                            | None \<Rightarrow> Some (Inr (isPending2, renderResult2), w2)))
                    else Some (Inr (isPending, renderResult'), w1)) of
                None \<Rightarrow> None
              | Some (Inl e, w2) \<Rightarrow> Some (Inl e, w2)
              | Some (Inr (isPending3, renderResult3), w2) \<Rightarrow>
                  (let w3 = upd that (\<lambda>d. setPhase RENDERED (d\<lparr>renderResult := renderResult3\<rparr>)) w2;
                       w4 = (if \<not> isRenderInterrupted (renderState w3)
                             then w3\<lparr>renderState := (renderState w3)\<lparr>renderComponentCount :=
                                      renderComponentCount (renderState w3) + 1\<rparr>\<rparr>
                             else w3)
                   in if isPending3 then Some (Inl RenderPending, w4)
                      else if NEEDS_RENDER_AFTER_RENDER (flags (comps w4 that)) then
                        (if recursion < 10 then
                           (case u_enterRender n that context' w4 of
                              None \<Rightarrow> None
                            | Some w5 \<Rightarrow>
                                u_render n rend that arg context' isRequired isOptional (recursion + 1) w5)
                         else
                           (case u_forceRender n that False w4 of
                              None \<Rightarrow> None
                            | Some w5 \<Rightarrow> Some (Inr renderResult3, w5)))
                      else Some (Inr renderResult3, w4))))"

text \<open>\<^verbatim>\<open>render(arg, options)\<close>, with \<^verbatim>\<open>options.context\<close>, \<^verbatim>\<open>options.isRequired\<close>
  and \<^verbatim>\<open>options.isOptional\<close> as arguments.\<close>

definition renderBody ::
  "nat \<Rightarrow> rend \<Rightarrow> cid \<Rightarrow> jsval \<Rightarrow> Context option \<Rightarrow> bool \<Rightarrow> bool \<Rightarrow> world \<Rightarrow> jsval outcome" where
  "renderBody fuel rend this arg context' isRequired isOptional w =
     (if \<not> isRendering (renderState w)
      then Some (Inl (Error ''Rendering component outside Component.render''), w)
      else (case u_enterRender fuel this context' w of
              None \<Rightarrow> None
            | Some w1 \<Rightarrow> u_render fuel rend this arg context' isRequired isOptional 0 w1))"

text \<open>The \<^verbatim>\<open>while (data)\<close> loop of \<^verbatim>\<open>_rerenderInterrupted\<close> from one interrupted
  component up its ancestors.\<close>

fun invalidateUp :: "nat \<Rightarrow> cid \<Rightarrow> bool \<Rightarrow> world \<Rightarrow> world option" where
  "invalidateUp 0 c invalidatePrepare w = None"
| "invalidateUp (Suc n) c invalidatePrepare w =
     (let w1 = (if invalidatePrepare then upd c u_invalidatePrepareCache w else w);
          w2 = upd c u_invalidateRenderCache w1;
          ph = phase (flags (comps w2 c))
      in if ph \<noteq> RENDERED \<and> ph \<noteq> RESTORING then Some w2
         else
           (let w3 = upd c u_resetPendingRender w2
            in case renderParent (comps w3 c) of
                 None \<Rightarrow> Some w3
               | Some parent \<Rightarrow>
                   invalidateUp n parent
                     (case childrenData (comps w3 parent) of
                        Some cd \<Rightarrow> map_of (prepareChildren cd) c \<noteq> None
                      | None \<Rightarrow> False)
                     w3))"

text \<open>\<^verbatim>\<open>_rerenderInterrupted(rootId)\<close>.\<close>

definition u_rerenderInterrupted :: "nat \<Rightarrow> cid \<Rightarrow> world \<Rightarrow> world option" where
  "u_rerenderInterrupted fuel rootId w =
     (case map_of (interruptedComponents w) rootId of
        Some interrupted \<Rightarrow>
          (case foldOpt (\<lambda>c. invalidateUp fuel c False) interrupted w of
             None \<Rightarrow> None
           | Some w1 \<Rightarrow>
               Some (w1\<lparr>interruptedComponents := AList.delete rootId (interruptedComponents w1)\<rparr>))
      | None \<Rightarrow> Some w)"

text \<open>\<^verbatim>\<open>renderRoot(arg, options)\<close> around its \<^verbatim>\<open>try { return this.render(arg, options) }
  finally { ... }\<close>: \<open>body\<close> is the call of \<^verbatim>\<open>this.render\<close>, and what follows it runs
  whether it returned or threw.\<close>

definition renderRootBody :: "nat \<Rightarrow> (world \<Rightarrow> jsval outcome) \<Rightarrow> cid \<Rightarrow> world \<Rightarrow> jsval outcome" where
  "renderRootBody fuel body this w =
     (case u_rerenderInterrupted fuel this w of
        None \<Rightarrow> None
      | Some w0 \<Rightarrow>
          (let (oldState, w1) = resetState w0;
               d = comps w1 this;
               w2 = w1\<lparr>renderState := (renderState w1)\<lparr>isRendering := True,
                        lastRenderWasInterrupted := RENDER_ROOT_WAS_INTERRUPTED (flags d),
                        lastRenderComponentCount := componentCount d,
                        renderInterruptGeneration := interruptGeneration d,
                        renderStartTime := clock w1\<rparr>\<rparr>
           in case body w2 of
                None \<Rightarrow> None
              | Some (res, w3) \<Rightarrow>
                  (let isInterrupted = isRenderInterrupted (renderState w3);
                       w4 = upd this (\<lambda>d. d\<lparr>flags := (flags d)\<lparr>RENDER_ROOT_WAS_INTERRUPTED := isInterrupted\<rparr>,
                                 interruptGeneration :=
                                   (if isInterrupted then renderInterruptGeneration (renderState w3) else 0),
                                 componentCount := renderComponentCount (renderState w3)\<rparr>) w3
                   in Some (res, restoreState oldState w4))))"

text \<open>The two entry points, tied together: with fuel \<open>Suc n\<close> the hooks run with the
  engine of fuel \<open>n\<close>.\<close>

primrec engine :: "nat \<Rightarrow> rend" where
  "engine 0 = (\<lambda>asRoot this arg context' isRequired isOptional w. None)"
| "engine (Suc n) = (\<lambda>asRoot this arg context' isRequired isOptional w.
     if asRoot
     then renderRootBody n (renderBody n (engine n) this arg context' isRequired isOptional) this w
     else renderBody n (engine n) this arg context' isRequired isOptional w)"

definition render :: "nat \<Rightarrow> cid \<Rightarrow> jsval \<Rightarrow> Context option \<Rightarrow> bool \<Rightarrow> bool \<Rightarrow> world \<Rightarrow> jsval outcome" where
  "render fuel = engine fuel False"

definition renderRoot :: "nat \<Rightarrow> cid \<Rightarrow> jsval \<Rightarrow> Context option \<Rightarrow> world \<Rightarrow> jsval outcome" where
  "renderRoot fuel this arg context' = engine fuel True this arg context' False False"

subsection \<open>The initial module state\<close>

text \<open>The module state after loading, with the components given by \<open>cs\<close>.\<close>

definition initialWorld :: "(cid \<times> data) list \<Rightarrow> world" where
  "initialWorld cs =
     \<lparr>compList = cs,
      renderState = \<lparr>isRendering = False, isRenderInterrupted = False,
         lastRenderWasInterrupted = False, lastRenderComponentCount = 0, renderStartTime = 0,
         renderInterruptGeneration = 0, renderComponentCount = 0\<rparr>,
      renderStack = [],
      interruptedComponents = [],
      rerenderInterruptedTimeout = False,
      unmountedComponents = [],
      disappearHandlersTimeout = False,
      contextNamesByKey = [],
      nextRef = 1,
      clock = 0,
      events = []\<rparr>"

section \<open>Example worlds\<close>

text \<open>A world with a component of the base class whose state is \<^verbatim>\<open>{n: NaN, k: 1}\<close>.\<close>

definition exampleWorld :: world where
  "exampleWorld = initialWorld [(1, newComponent defaultMethods [(''n'', JNaN), (''k'', JNum 1)])]"

text \<open>The module state in the middle of the render pass of root 1: the pass is
  interrupted, three components have rendered, the clock has advanced.\<close>

definition midPassWorld :: world where
  "midPassWorld =
     (initialWorld [])
       \<lparr>renderState := \<lparr>isRendering = True, isRenderInterrupted = True,
            lastRenderWasInterrupted = True, lastRenderComponentCount = 2, renderStartTime = 7,
            renderInterruptGeneration = 1, renderComponentCount = 3\<rparr>,
        renderStack := [1], clock := 9\<rparr>"

subsection \<open>Observing lifecycle hooks\<close>

text \<open>The calls of \<^verbatim>\<open>onAppear\<close> and \<^verbatim>\<open>onMount\<close> of one component among a list of
  events, and all its lifecycle calls.\<close>

definition appearMountOf :: "cid \<Rightarrow> event list \<Rightarrow> event list" where
  "appearMountOf c es = filter (\<lambda>e. e = OnAppear c \<or> e = OnMount c) es"

definition lifecycleOf :: "cid \<Rightarrow> event list \<Rightarrow> event list" where
  "lifecycleOf c es =
     filter (\<lambda>e. e = OnAppear c \<or> e = OnMount c \<or> e = OnUnmount c \<or> e = OnDisappear c) es"

subsection \<open>A child that moves between two parents\<close>

text \<open>
  Root 1 renders the parents 2 and 3, and hands them its argument.  With the argument
  \<^verbatim>\<open>'first'\<close> it renders 2 before 3, and 2 renders the child 4; with \<^verbatim>\<open>'second'\<close> it
  renders 3 before 2, and 3 renders the child 4 (while 4 is still mounted under 2), and 2
  renders nothing.  Component 4 is of the base class.
\<close>

definition moveRoot :: methods where
  "moveRoot = defaultMethods\<lparr>doRender := (\<lambda>arg pr st.
      if arg = JStr ''first''
      then Render 2 arg False False (\<lambda>a. Render 3 arg False False (\<lambda>b. Return JUndefined))
      else Render 3 arg False False (\<lambda>b. Render 2 arg False False (\<lambda>a. Return JUndefined)))\<rparr>"

definition moveA :: methods where
  "moveA = defaultMethods\<lparr>doRender := (\<lambda>arg pr st.
      if arg = JStr ''first'' then Render 4 JUndefined False False (\<lambda>c. Return JUndefined)
      else Return JUndefined)\<rparr>"

definition moveB :: methods where
  "moveB = defaultMethods\<lparr>doRender := (\<lambda>arg pr st.
      if arg = JStr ''second'' then Render 4 JUndefined False False (\<lambda>c. Return JUndefined)
      else Return JUndefined)\<rparr>"

definition moveWorld :: world where
  "moveWorld = initialWorld [(1, newComponent moveRoot []), (2, newComponent moveA []),
      (3, newComponent moveB [])]"

text \<open>The world after the first pass, at the moment parent 3 is rendering in a later
  pass of root 1: the render stack is \<^verbatim>\<open>[1, 3]\<close> and child 4 is mounted under 2.\<close>

definition movedWorld :: world where
  "movedWorld =
     (case renderRoot 6 1 (JStr ''first'') None moveWorld of
        Some (r, w) \<Rightarrow> w\<lparr>renderStack := [1, 3],
                          renderState := (renderState w)\<lparr>isRendering := True\<rparr>\<rparr>
      | None \<Rightarrow> moveWorld)"

subsection \<open>A child that is shown, hidden and shown again\<close>

text \<open>Root 1 renders child 2 when its argument is \<^verbatim>\<open>'show'\<close>, and nothing
  otherwise.\<close>

definition showRoot :: methods where
  "showRoot = defaultMethods\<lparr>doRender := (\<lambda>arg pr st.
      if arg = JStr ''show'' then Render 2 JUndefined False False (\<lambda>c. Return JUndefined)
      else Return JUndefined)\<rparr>"

definition showWorld :: world where
  "showWorld = initialWorld [(1, newComponent showRoot [])]"

section \<open>Properties of the caches\<close>

lemma findEntryFrom_bounds:
  "findEntryFrom cmp key es i = -1 \<or>
   (i \<le> findEntryFrom cmp key es i \<and> findEntryFrom cmp key es i < i + int (length es))"
  by (induction es arbitrary: i) (auto, force+)

lemma findEntry_range:
  "findEntry c key \<ge> 0 \<Longrightarrow> nat (findEntry c key) < length (entries c)"
  using findEntryFrom_bounds [of "keyComparator c" key "entries c" 0]
  by (auto simp: findEntry_def)

text \<open>The scan cache does what the specification says: an existing key is overwritten
  where it stands, and no key is added, dropped or moved.\<close>

lemma setEntry_existing_entries:
  assumes "findEntry c key \<ge> 0"
  shows "entries (setEntry c key v) =
    (entries c)[nat (findEntry c key) := (fst (entries c ! nat (findEntry c key)), v)]"
  using assms by (simp add: setEntry_def Let_def)

lemma setEntry_existing_keys:
  assumes "findEntry c key \<ge> 0"
  shows "map fst (entries (setEntry c key v)) = map fst (entries c)"
  using findEntry_range [OF assms]
  by (simp add: setEntry_existing_entries [OF assms] map_update list_update_same_conv)

text \<open>A new key goes to the front of the scan cache; when that makes the array longer
  than a non-negative \<^verbatim>\<open>maxSize\<close>, exactly the last entry is dropped.\<close>

lemma setEntry_new:
  assumes "\<not> findEntry c key \<ge> 0" "maxSize c \<noteq> 0"
  shows "entries (setEntry c key v) =
     (if maxSize c \<ge> 0 \<and> int (length (entries c)) + 1 > maxSize c
      then (key, v) # butlast (entries c) else (key, v) # entries c)"
  using assms
  by (simp add: setEntry_def Let_def getMaxSize_def)

text \<open>
  Claim C7.  The specification says that in both bounded caches setting an entry whose key
  is already present updates the value in place and evicts no other entry.  The hash cache
  does not: \<^verbatim>\<open>HashCache.setEntry\<close> runs its eviction loop whenever the map is at
  capacity, before it looks whether the hash is present.  With capacity 2 and the keys
  \<^verbatim>\<open>a\<close> and \<^verbatim>\<open>b\<close> stored, setting \<^verbatim>\<open>a\<close> again deletes
  \<^verbatim>\<open>b\<close>: the cache ends with one entry.
\<close>

theorem C7_hash_cache_update_evicts:
  "(let c0 = newHashCache 2 (\<lambda>k. k) :: (string, nat) HashCache;
        c1 = hsetEntry c0 ''a'' 1;
        c2 = hsetEntry c1 ''b'' 2;
        c3 = hsetEntry c2 ''a'' 3
    in hgetEntry c2 ''a'' = Some 1 \<and> hgetEntry c2 ''b'' = Some 2 \<and> hgetSize c2 = 2
     \<and> hgetEntry c3 ''a'' = Some 3 \<and> hgetEntry c3 ''b'' = None \<and> hgetSize c3 = 1)"
  by code_simp

section \<open>Properties of contexts\<close>

lemma changeLoop_Some: "changeLoop attrs mods keys (Some m) \<noteq> None"
  by (induction keys arbitrary: m) (auto simp: Let_def)

lemma changeLoop_None_iff:
  "changeLoop attrs mods keys None = None \<longleftrightarrow>
     list_all (\<lambda>key. strictEq (jsGet mods key) (jsGet attrs key)) keys"
  by (induction keys) (auto simp: Let_def changeLoop_Some)

lemma change_same:
  "list_all (\<lambda>key. strictEq (jsGet mods key) (jsGet (attributes c) key)) (map fst mods)
     \<Longrightarrow> change c mods fresh = (c, fresh)"
  using changeLoop_None_iff [of "attributes c" mods "map fst mods"]
  by (simp add: change_def)

lemma change_new:
  "\<not> list_all (\<lambda>key. strictEq (jsGet mods key) (jsGet (attributes c) key)) (map fst mods)
     \<Longrightarrow> ctxId (fst (change c mods fresh)) = fresh \<and> snd (change c mods fresh) = Suc fresh"
  using changeLoop_None_iff [of "attributes c" mods "map fst mods"]
  by (auto simp: change_def split: option.splits)

lemma strictEq_sym: "strictEq a b \<Longrightarrow> strictEq b a"
  by (cases a; cases b; simp)

lemma strictEq_trans: "strictEq a b \<Longrightarrow> strictEq b c \<Longrightarrow> strictEq a c"
  by (cases a; cases b; cases c; simp)

lemma isNaN_strictEq: "isNaN a \<Longrightarrow> \<not> strictEq a b" "isNaN a \<Longrightarrow> \<not> strictEq b a"
  by (cases a; cases b; simp)+

lemma sameValue_refl: "sameValue a a"
  by (cases a) (simp_all add: sameValue_def sameValueZero_def)

lemma sameValue_trans: "sameValue a b \<Longrightarrow> sameValue b c \<Longrightarrow> sameValue a c"
  unfolding sameValue_def sameValueZero_def
  using isNaN_strictEq strictEq_trans by blast

lemma jsHas_iff: "jsHas ps k \<longleftrightarrow> k \<in> fst ` set ps"
  by (simp add: jsHas_def map_of_eq_None_iff)

lemma sameShallowProps_alt:
  "sameShallowProps sv a b \<longleftrightarrow>
     fst ` set a = fst ` set b \<and> (\<forall>k \<in> fst ` set a. sv (jsGet a k) (jsGet b k))"
proof -
  have "sameShallowProps sv a b \<longleftrightarrow>
     (\<forall>k \<in> fst ` set a. k \<in> fst ` set b \<and> sv (jsGet a k) (jsGet b k)) \<and> (\<forall>k \<in> fst ` set b. k \<in> fst ` set a)"
    by (simp add: sameShallowProps_def list_all_iff jsHas_iff)
  also have "\<dots> \<longleftrightarrow> fst ` set a = fst ` set b \<and> (\<forall>k \<in> fst ` set a. sv (jsGet a k) (jsGet b k))"
    by blast
  finally show ?thesis .
qed

lemma sameShallowProps_trans:
  assumes "sameShallowProps sameValue a b" "sameShallowProps sameValue b c"
  shows "sameShallowProps sameValue a c"
proof -
  have k1: "fst ` set a = fst ` set b"
    and ab: "\<And>k. k \<in> fst ` set a \<Longrightarrow> sameValue (jsGet a k) (jsGet b k)"
    using assms(1) unfolding sameShallowProps_alt by blast+
  have k2: "fst ` set b = fst ` set c"
    and bc: "\<And>k. k \<in> fst ` set b \<Longrightarrow> sameValue (jsGet b k) (jsGet c k)"
    using assms(2) unfolding sameShallowProps_alt by blast+
  have ac: "sameValue (jsGet a k) (jsGet c k)" if "k \<in> fst ` set a" for k
  proof -
    from that k1 have "k \<in> fst ` set b" by simp
    from sameValue_trans [OF ab [OF that] bc [OF this]] show ?thesis .
  qed
  have "fst ` set a = fst ` set c" using k1 k2 by simp
  with ac show ?thesis
    unfolding sameShallowProps_alt by simp
qed

lemma applyModificationsCached_hit:
  assumes "cache = Some c" "ctxId (mcBase c) = ctxId base" "sameShallowProps sameValue (mcModifications c) m"
  shows "applyModificationsCached base (Some m) cache f = (mcResult c, cache, f)"
  using assms by (simp add: applyModificationsCached_def)

lemma applyModificationsCached_miss:
  assumes "\<not> (\<exists>c. cache = Some c \<and> ctxId (mcBase c) = ctxId base
            \<and> sameShallowProps sameValue (mcModifications c) m)"
  shows "applyModificationsCached base (Some m) cache f =
     (fst (change base m f),
      Some \<lparr>mcBase = base, mcModifications = m, mcResult = fst (change base m f)\<rparr>,
      snd (change base m f))"
proof (cases cache)
  case None
  then show ?thesis by (simp add: applyModificationsCached_def split_beta)
next
  case (Some c)
  with assms have "\<not> (ctxId (mcBase c) = ctxId base \<and> sameShallowProps sameValue (mcModifications c) m)"
    by blast
  with Some show ?thesis by (auto simp add: applyModificationsCached_def split_beta)
qed

lemma sameShallowProps_refl: "sameShallowProps sameValue m m"
  unfolding sameShallowProps_alt by (simp add: sameValue_refl)

lemma applyModificationsCached_post:
  assumes "applyModificationsCached base (Some m1) cache f0 = (r1, cache1, f1)"
  shows "\<exists>c. cache1 = Some c \<and> ctxId (mcBase c) = ctxId base
            \<and> sameShallowProps sameValue (mcModifications c) m1 \<and> mcResult c = r1"
proof (cases "\<exists>c. cache = Some c \<and> ctxId (mcBase c) = ctxId base
            \<and> sameShallowProps sameValue (mcModifications c) m1")
  case True
  then obtain c where c: "cache = Some c" "ctxId (mcBase c) = ctxId base"
     "sameShallowProps sameValue (mcModifications c) m1" by blast
  have e: "(r1, cache1, f1) = (mcResult c, cache, f0)"
    unfolding assms [symmetric] by (rule applyModificationsCached_hit [OF c])
  then have "r1 = mcResult c" "cache1 = cache" by blast+
  with c show ?thesis by blast
next
  case False
  from applyModificationsCached_miss [OF False, of f0] assms
  have "cache1 = Some \<lparr>mcBase = base, mcModifications = m1, mcResult = r1\<rparr>" by simp
  then show ?thesis by (simp add: sameShallowProps_refl)
qed

lemma applyModificationsCached_again:
  assumes "sameShallowProps sameValue m1 m2"
    and "applyModificationsCached base (Some m1) cache f0 = (r1, cache1, f1)"
  shows "applyModificationsCached base (Some m2) cache1 f1 = (r1, cache1, f1)"
proof -
  from applyModificationsCached_post [OF assms(2)] obtain c where
    c: "cache1 = Some c" "ctxId (mcBase c) = ctxId base"
       "sameShallowProps sameValue (mcModifications c) m1" "mcResult c = r1" by blast
  have "applyModificationsCached base (Some m2) cache1 f1 = (mcResult c, cache1, f1)"
    by (rule applyModificationsCached_hit [OF c(1) c(2) sameShallowProps_trans [OF c(3) assms(1)]])
  then show ?thesis unfolding c(4) .
qed

text \<open>
  Claim C5, as the code has it.  \<^verbatim>\<open>Context.change\<close> compares with \<^verbatim>\<open>!==\<close>:
  it returns the very same context object (and constructs nothing) exactly when every
  modified key's new value is strictly equal to the current one, and a newly constructed
  object otherwise.  The modification cache of \<^verbatim>\<open>applyModificationsCached\<close> returns
  the context object it produced before, and constructs nothing, when it is called again
  with the same base context and modifications that are shallowly the same under
  \<^verbatim>\<open>sameValue\<close>.
\<close>

theorem C5_context_reuse:
  "(change c mods fresh = (c, fresh)) =
      list_all (\<lambda>key. strictEq (jsGet mods key) (jsGet (attributes c) key)) (map fst mods)
   \<and> ctxId (fst (change c mods fresh)) =
      (if list_all (\<lambda>key. strictEq (jsGet mods key) (jsGet (attributes c) key)) (map fst mods)
       then ctxId c else fresh)
   \<and> (sameShallowProps sameValue m1 m2 \<and>
        applyModificationsCached base (Some m1) cache f0 = (r1, cache1, f1)
      \<longrightarrow> applyModificationsCached base (Some m2) cache1 f1 = (r1, cache1, f1))"
proof (intro conjI impI)
  show "(change c mods fresh = (c, fresh)) =
      list_all (\<lambda>key. strictEq (jsGet mods key) (jsGet (attributes c) key)) (map fst mods)"
  proof (cases "list_all (\<lambda>key. strictEq (jsGet mods key) (jsGet (attributes c) key)) (map fst mods)")
    case True
    with change_same [OF True, of fresh] show ?thesis by simp
  next
    case False
    from change_new [OF False, of fresh] have "snd (change c mods fresh) \<noteq> fresh" by simp
    then have "change c mods fresh \<noteq> (c, fresh)" by (cases "change c mods fresh") auto
    with False show ?thesis by simp
  qed
  show "ctxId (fst (change c mods fresh)) =
      (if list_all (\<lambda>key. strictEq (jsGet mods key) (jsGet (attributes c) key)) (map fst mods)
       then ctxId c else fresh)"
  proof (cases "list_all (\<lambda>key. strictEq (jsGet mods key) (jsGet (attributes c) key)) (map fst mods)")
    case True
    with change_same [OF True, of fresh] show ?thesis by simp
  next
    case False
    with change_new [OF False, of fresh] show ?thesis by simp
  qed
next
  assume "sameShallowProps sameValue m1 m2 \<and>
        applyModificationsCached base (Some m1) cache f0 = (r1, cache1, f1)"
  then show "applyModificationsCached base (Some m2) cache1 f1 = (r1, cache1, f1)"
    using applyModificationsCached_again by blast
qed

text \<open>The theorem at a base context \<^verbatim>\<open>{w: 10}\<close> with reference 1 and an empty cache:
  the modifications \<^verbatim>\<open>{w: 20}\<close> produce the new context 2, and the shallowly equal
  modifications of the next call get that same context back.\<close>

theorem C5_context_reuse_witness:
  "sameShallowProps sameValue [(''w'', JNum 20)] [(''w'', JNum 20)]
   \<and> applyModificationsCached \<lparr>ctxId = 1, attributes = [(''w'', JNum 10)]\<rparr>
        (Some [(''w'', JNum 20)]) None 2
       = (\<lparr>ctxId = 2, attributes = [(''w'', JNum 20)]\<rparr>,
          Some \<lparr>mcBase = \<lparr>ctxId = 1, attributes = [(''w'', JNum 10)]\<rparr>,
                 mcModifications = [(''w'', JNum 20)],
                 mcResult = \<lparr>ctxId = 2, attributes = [(''w'', JNum 20)]\<rparr>\<rparr>, 3)
   \<and> applyModificationsCached \<lparr>ctxId = 1, attributes = [(''w'', JNum 10)]\<rparr>
        (Some [(''w'', JNum 20)])
        (Some \<lparr>mcBase = \<lparr>ctxId = 1, attributes = [(''w'', JNum 10)]\<rparr>,
                 mcModifications = [(''w'', JNum 20)],
                 mcResult = \<lparr>ctxId = 2, attributes = [(''w'', JNum 20)]\<rparr>\<rparr>) 3
       = (\<lparr>ctxId = 2, attributes = [(''w'', JNum 20)]\<rparr>,
          Some \<lparr>mcBase = \<lparr>ctxId = 1, attributes = [(''w'', JNum 10)]\<rparr>,
                 mcModifications = [(''w'', JNum 20)],
                 mcResult = \<lparr>ctxId = 2, attributes = [(''w'', JNum 20)]\<rparr>\<rparr>, 3)"
proof -
  have h1: "sameShallowProps sameValue [(''w'', JNum 20)] [(''w'', JNum 20)]"
    by code_simp
  have h2: "applyModificationsCached \<lparr>ctxId = 1, attributes = [(''w'', JNum 10)]\<rparr>
        (Some [(''w'', JNum 20)]) None 2
       = (\<lparr>ctxId = 2, attributes = [(''w'', JNum 20)]\<rparr>,
          Some \<lparr>mcBase = \<lparr>ctxId = 1, attributes = [(''w'', JNum 10)]\<rparr>,
                 mcModifications = [(''w'', JNum 20)],
                 mcResult = \<lparr>ctxId = 2, attributes = [(''w'', JNum 20)]\<rparr>\<rparr>, 3)"
    by code_simp
  from C5_context_reuse [of _ _ _ "[(''w'', JNum 20)]" "[(''w'', JNum 20)]"
      "\<lparr>ctxId = 1, attributes = [(''w'', JNum 10)]\<rparr>" None 2] h1 h2
  show ?thesis by blast
qed

text \<open>
  Claim C5 as the specification states it fails for \<^verbatim>\<open>NaN\<close>: a context whose
  attribute \<^verbatim>\<open>x\<close> is \<^verbatim>\<open>NaN\<close>, modified with \<^verbatim>\<open>{x: NaN}\<close>, keeps every attribute
  value, and yet \<^verbatim>\<open>change\<close> returns a new object, because \<^verbatim>\<open>NaN !== NaN\<close>.
\<close>

theorem C5_counterexample:
  "attributes (fst (change \<lparr>ctxId = 1, attributes = [(''x'', JNaN)]\<rparr> [(''x'', JNaN)] 2))
     = attributes \<lparr>ctxId = 1, attributes = [(''x'', JNaN)]\<rparr>
   \<and> sameValue (jsGet [(''x'', JNaN)] ''x'')
         (jsGet (attributes \<lparr>ctxId = 1, attributes = [(''x'', JNaN)]\<rparr>) ''x'')
   \<and> ctxId (fst (change \<lparr>ctxId = 1, attributes = [(''x'', JNaN)]\<rparr> [(''x'', JNaN)] 2))
     \<noteq> ctxId \<lparr>ctxId = 1, attributes = [(''x'', JNaN)]\<rparr>"
  by code_simp

section \<open>State changes\<close>

lemma strictEq_commute: "strictEq a b = strictEq b a"
  by (cases a; cases b; auto)

lemma setStateLoop_same:
  "list_all (\<lambda>name. sameValueZero (jsGet vals name) (jsGet (state (comps w that)) name)) names
   \<Longrightarrow> setStateLoop that vals names hasChanged allWaiters w = (hasChanged, allWaiters, w)"
proof (induction names)
  case Nil
  then show ?case by simp
next
  case (Cons name names)
  from Cons.prems have same: "sameValueZero (jsGet vals name) (jsGet (state (comps w that)) name)"
    and rest: "list_all (\<lambda>name. sameValueZero (jsGet vals name) (jsGet (state (comps w that)) name)) names"
    by simp_all
  from same have cond: "(\<not> strictEq (jsGet (state (comps w that)) name) (jsGet vals name)
      \<and> \<not> (isNaN (jsGet (state (comps w that)) name) \<and> isNaN (jsGet vals name))) = False"
    by (auto simp: sameValueZero_def strictEq_commute [of "jsGet vals name"])
  show ?case
    by (simp only: setStateLoop.simps Let_def cond if_False Cons.IH [OF rest])
qed

text \<open>
  Claim C10.  When every supplied value is the same as the current value of its attribute
  under same-value-zero, \<^verbatim>\<open>_setState\<close> leaves the whole world as it is: the state, the
  set of attributes changed since prepare, the waiters, the caches, the pending-render
  promises and the scheduled render request are unchanged, and no listener call or waiter
  resolution is added to the observed events.
\<close>

theorem C10_setState_same_values_noop:
  assumes "list_all (\<lambda>name. sameValueZero (jsGet vals name) (jsGet (state (comps w that)) name))
             (map fst vals)"
  shows "u_setState fuel that vals w = Some w"
  using setStateLoop_same [OF assms, of False "[]"]
  by (simp add: u_setState_def)

theorem C10_setState_same_values_noop_witness:
  "list_all (\<lambda>name. sameValueZero (jsGet [(''n'', JNaN), (''k'', JNum 1)] name)
                 (jsGet (state (comps exampleWorld 1)) name))
      (map fst [(''n'', JNaN), (''k'', JNum (1::int))])
   \<and> u_setState 0 1 [(''n'', JNaN), (''k'', JNum 1)] exampleWorld = Some exampleWorld"
proof -
  have h: "list_all (\<lambda>name. sameValueZero (jsGet [(''n'', JNaN), (''k'', JNum 1)] name)
                 (jsGet (state (comps exampleWorld 1)) name))
      (map fst [(''n'', JNaN), (''k'', JNum (1::int))])"
    by code_simp
  from C10_setState_same_values_noop [OF h] h show ?thesis by (rule_tac conjI)
qed

section \<open>The render state around a root pass\<close>

lemma upd_renderState [simp]: "renderState (upd c f w) = renderState w"
  and upd_renderStack [simp]: "renderStack (upd c f w) = renderStack w"
  by (simp_all add: upd_def)

lemma invalidateUp_frame:
  "invalidateUp n c b w = Some w' \<Longrightarrow> renderState w' = renderState w \<and> renderStack w' = renderStack w"
proof (induction n arbitrary: c b w)
  case 0
  then show ?case by simp
next
  case (Suc n)
  then show ?case
    by (auto simp: Let_def split: if_splits option.splits)
qed

lemma foldOpt_frame:
  assumes "\<And>x s s'. f x s = Some s' \<Longrightarrow> P s' = P s"
  shows "foldOpt f xs s = Some s' \<Longrightarrow> P s' = P s"
proof (induction xs arbitrary: s)
  case Nil
  then show ?case by simp
next
  case (Cons x xs)
  then show ?case using assms by (auto split: option.splits)
qed

lemma rerenderInterrupted_frame:
  assumes "u_rerenderInterrupted fuel root w = Some w'"
  shows "renderState w' = renderState w \<and> renderStack w' = renderStack w"
proof (cases "map_of (interruptedComponents w) root")
  case None
  with assms show ?thesis by (simp add: u_rerenderInterrupted_def)
next
  case (Some interrupted)
  with assms obtain w1 where f: "foldOpt (\<lambda>c. invalidateUp fuel c False) interrupted w = Some w1"
    and w': "w' = w1\<lparr>interruptedComponents := AList.delete root (interruptedComponents w1)\<rparr>"
    by (auto simp: u_rerenderInterrupted_def split: option.splits)
  have "(renderState w1, renderStack w1) = (renderState w, renderStack w)"
    by (rule foldOpt_frame [where P = "\<lambda>w. (renderState w, renderStack w)", OF _ f])
       (use invalidateUp_frame in auto)
  with w' show ?thesis by simp
qed

text \<open>Whatever the call of \<^verbatim>\<open>this.render\<close> inside \<^verbatim>\<open>renderRoot\<close> does to the world,
  and however it ends, the render state and the render stack are afterwards what they
  were before.\<close>

lemma renderRootBody_frame:
  assumes "renderRootBody fuel body this w = Some (res, w')"
  shows "renderState w' = renderState w \<and> renderStack w' = renderStack w"
proof -
  from assms obtain w0 where r: "u_rerenderInterrupted fuel this w = Some w0"
    by (auto simp: renderRootBody_def split: option.splits)
  note fr = rerenderInterrupted_frame [OF r]
  from assms r obtain w4 where w': "w' = restoreState (renderState w0, renderStack w0) w4"
    by (auto simp: renderRootBody_def resetState_def Let_def split: option.splits prod.splits)
  have "renderState w' = renderState w0" "renderStack w' = renderStack w0"
    unfolding w' by (simp_all add: restoreState_def)
  with fr show ?thesis by simp
qed

text \<open>
  Claim C9.  A call of \<^verbatim>\<open>renderRoot\<close> that finishes, by returning a result or by
  throwing, in any world (also one in the middle of another root's pass), leaves
  \<^verbatim>\<open>renderState\<close> (\<^verbatim>\<open>isRendering\<close>, the interrupt flags and counters, the component
  counts, the start time) and the render stack exactly as they were before the call.
\<close>

theorem C9_renderRoot_restores_render_state:
  assumes "renderRoot fuel this arg c w = Some (res, w')"
  shows "renderState w' = renderState w \<and> renderStack w' = renderStack w"
proof (cases fuel)
  case 0
  with assms show ?thesis by (simp add: renderRoot_def)
next
  case (Suc n)
  with assms have "renderRootBody n (renderBody n (engine n) this arg c False False) this w = Some (res, w')"
    by (simp add: renderRoot_def)
  then show ?thesis by (rule renderRootBody_frame)
qed

text \<open>The theorem for a nested call: component 2 is rendered as a root while the pass of
  root 1 is in progress and interrupted.\<close>

theorem C9_renderRoot_restores_render_state_witness:
  "\<exists>res w'. renderRoot 5 2 JUndefined None midPassWorld = Some (res, w')
      \<and> renderState w' = renderState midPassWorld \<and> renderStack w' = renderStack midPassWorld"
proof -
  have "renderRoot 5 2 JUndefined None midPassWorld \<noteq> None"
    by code_simp
  then obtain res w' where r: "renderRoot 5 2 JUndefined None midPassWorld = Some (res, w')"
    by (cases "renderRoot 5 2 JUndefined None midPassWorld") auto
  from C9_renderRoot_restores_render_state [OF r] r show ?thesis by blast
qed

section \<open>Mounting and the lifecycle hooks\<close>

lemma upd_events [simp]: "events (upd c f w) = events w"
  by (simp add: upd_def)

lemma comps_upd: "comps (upd c f w) x = (if x = c then f (comps w c) else comps w x)"
  by (simp add: upd_def comps_def update_conv')

lemma comps_field_updates [simp]:
  "comps (w\<lparr>renderState := a1\<rparr>) = comps w"
  "comps (w\<lparr>renderStack := a2\<rparr>) = comps w"
  "comps (w\<lparr>interruptedComponents := a3\<rparr>) = comps w"
  "comps (w\<lparr>rerenderInterruptedTimeout := a4\<rparr>) = comps w"
  "comps (w\<lparr>unmountedComponents := a5\<rparr>) = comps w"
  "comps (w\<lparr>disappearHandlersTimeout := a6\<rparr>) = comps w"
  "comps (w\<lparr>contextNamesByKey := a7\<rparr>) = comps w"
  "comps (w\<lparr>nextRef := a8\<rparr>) = comps w"
  "comps (w\<lparr>clock := a9\<rparr>) = comps w"
  "comps (w\<lparr>events := a10\<rparr>) = comps w"
  by (simp_all add: comps_def fun_eq_iff)

lemma emit_simps [simp]:
  "events (emit e w) = events w @ [e]" "comps (emit e w) = comps w"
  "renderStack (emit e w) = renderStack w" "renderState (emit e w) = renderState w"
  by (simp_all add: emit_def comps_def fun_eq_iff)

lemma getModifiedContext_frame:
  assumes "getModifiedContext p w = (cx, w')"
  shows "events w' = events w" "flags (comps w' x) = flags (comps w x)"
    "renderParent (comps w' x) = renderParent (comps w x)"
    "renderStack w' = renderStack w"
  using assms
  by (auto simp: getModifiedContext_def Let_def comps_upd split: prod.splits if_splits)

lemma updateContext_frame:
  assumes "u_updateContext that parent given w = w'"
  shows "\<exists>rc. events w' = events w @ rc \<and> appearMountOf y rc = []"
    and "ERROR_DURING_INITIALIZE (flags (comps w' x)) = ERROR_DURING_INITIALIZE (flags (comps w x))"
    and "MOUNTED (flags (comps w' x)) = MOUNTED (flags (comps w x))"
proof -
  obtain cx w1 where c: "(case given of Some c \<Rightarrow> (c, w)
              | None \<Rightarrow> (case parent of Some p \<Rightarrow> getModifiedContext p w | None \<Rightarrow> (emptyContext, w))) = (cx, w1)"
    by (cases "(case given of Some c \<Rightarrow> (c, w)
              | None \<Rightarrow> (case parent of Some p \<Rightarrow> getModifiedContext p w | None \<Rightarrow> (emptyContext, w)))") auto
  then have f: "events w1 = events w" "\<And>x. flags (comps w1 x) = flags (comps w x)"
    using getModifiedContext_frame(1,2) by (auto split: option.splits)
  show "\<exists>rc. events w' = events w @ rc \<and> appearMountOf y rc = []"
    using assms c f
    by (auto simp: u_updateContext_def Let_def appearMountOf_def split: if_splits option.splits)
  show "ERROR_DURING_INITIALIZE (flags (comps w' x)) = ERROR_DURING_INITIALIZE (flags (comps w x))"
    using assms c f
    by (auto simp: u_updateContext_def Let_def comps_upd u_invalidateRenderCache_def
        u_invalidatePrepareCache_def split: if_splits option.splits)
  show "MOUNTED (flags (comps w' x)) = MOUNTED (flags (comps w x))"
    using assms c f
    by (auto simp: u_updateContext_def Let_def comps_upd u_invalidateRenderCache_def
        u_invalidatePrepareCache_def split: if_splits option.splits)
qed


lemma unmountFromParent_other_parent:
  assumes "u_unmountFromParent fuel that parent w = Some w'"
    and "renderParent (comps w that) \<noteq> parent"
  shows "w' = w"
  using assms by (cases fuel) (simp_all add: Let_def)

lemma remount_events:
  assumes "u_remount fuel that wasMounted prevParent newParent given w = Some w'"
    and "wasMounted \<longrightarrow> renderParent (comps w that) \<noteq> prevParent"
  shows "take (length (events w)) (events w') = events w
    \<and> appearMountOf that (drop (length (events w)) (events w')) =
       (if \<not> ERROR_DURING_INITIALIZE (flags (comps w that))
        then (if wasMounted then [OnMount that] else [OnAppear that, OnMount that])
        else [])"
proof -
  from assms obtain w1 where u: "(if wasMounted then u_unmountFromParent fuel that prevParent w else Some w) = Some w1"
    by (auto simp: u_remount_def split: option.splits)
  with assms(2) have w1: "w1 = w"
    using unmountFromParent_other_parent by (auto split: if_splits)
  define w2 where "w2 = u_updateContext that newParent given w"
  from updateContext_frame(1) [OF w2_def [symmetric], of that] obtain rc
    where rc: "events w2 = events w @ rc" "appearMountOf that rc = []" by blast
  have err: "ERROR_DURING_INITIALIZE (flags (comps w2 that)) = ERROR_DURING_INITIALIZE (flags (comps w that))"
    using updateContext_frame(2) [OF w2_def [symmetric]] .
  from assms(1) u w1 have w': "w' = (if \<not> ERROR_DURING_INITIALIZE (flags (comps w2 that))
              then emit (OnMount that) (if \<not> wasMounted then emit (OnAppear that) w2 else w2)
              else w2)"
    by (auto simp: u_remount_def w2_def Let_def split: if_splits)
  show ?thesis
    unfolding w' err using rc by (auto simp: appearMountOf_def)
qed

text \<open>
  Claim C4, as the code has it.  When a component enters render, \<^verbatim>\<open>onAppear\<close> is
  called exactly when the component is remounted while it is not mounted
  (\<^verbatim>\<open>FLAG_MOUNTED\<close> is clear): the first time, and again every time it is mounted after
  having been unmounted.  A component that is still mounted and enters render under a
  different parent gets \<^verbatim>\<open>onMount\<close> without \<^verbatim>\<open>onAppear\<close>; one that stays with its
  parent gets neither.  (A component whose \<^verbatim>\<open>initialize\<close> threw gets no lifecycle
  call.)  The calls are appended to the events observed before.
\<close>

theorem C4_onAppear_when_not_mounted:
  assumes "u_enterRender fuel that given w = Some w'"
  shows "take (length (events w)) (events w') = events w
    \<and> appearMountOf that (drop (length (events w)) (events w')) =
       (if (getCurrentRenderParent w \<noteq> renderParent (comps w that)
             \<or> (getCurrentRenderParent w = None \<and> \<not> MOUNTED (flags (comps w that))))
           \<and> \<not> ERROR_DURING_INITIALIZE (flags (comps w that))
        then (if MOUNTED (flags (comps w that)) then [OnMount that] else [OnAppear that, OnMount that])
        else [])"
proof -
  define w1 where "w1 = upd that (\<lambda>d. (setPhase MOUNTING (d\<lparr>flags := (flags d)\<lparr>KEPT_MOUNTED := False\<rparr>\<rparr>))
                              \<lparr>pendingRender := False\<rparr>) w"
  define newParent where "newParent = getCurrentRenderParent w"
  define prevParent where "prevParent = renderParent (comps w that)"
  define wasMounted where "wasMounted = MOUNTED (flags (comps w that))"
  define w2 where "w2 = upd that (\<lambda>d. d\<lparr>flags := (flags d)\<lparr>MOUNTED := True,
                                   NEEDS_RENDER_AFTER_RENDER := False\<rparr>,
                               renderParent := newParent\<rparr>) w1"
  have p1: "renderParent (comps w1 that) = prevParent" "getCurrentRenderParent w1 = newParent"
    "MOUNTED (flags (comps w1 that)) = wasMounted"
    by (simp_all add: w1_def comps_upd setPhase_def prevParent_def newParent_def wasMounted_def
        getCurrentRenderParent_def)
  have p2: "events w2 = events w" "renderParent (comps w2 that) = newParent"
    "ERROR_DURING_INITIALIZE (flags (comps w2 that)) = ERROR_DURING_INITIALIZE (flags (comps w that))"
    by (simp_all add: w2_def w1_def comps_upd setPhase_def)
  have e: "u_enterRender fuel that given w =
      (if newParent \<noteq> prevParent \<or> (newParent = None \<and> \<not> wasMounted)
       then u_remount fuel that wasMounted prevParent newParent given w2
       else Some (u_updateContext that newParent given w2))"
    unfolding u_enterRender_def Let_def w1_def [symmetric] p1 w2_def [symmetric] ..
  show ?thesis
  proof (cases "newParent \<noteq> prevParent \<or> (newParent = None \<and> \<not> wasMounted)")
    case True
    then have "u_enterRender fuel that given w = u_remount fuel that wasMounted prevParent newParent given w2"
      by (simp only: e if_True)
    with assms have r: "u_remount fuel that wasMounted prevParent newParent given w2 = Some w'"
      by simp
    have "wasMounted \<longrightarrow> renderParent (comps w2 that) \<noteq> prevParent"
      using True p2(2) by auto
    from remount_events [OF r this] True show ?thesis
      unfolding p2 by (simp add: newParent_def prevParent_def wasMounted_def)
  next
    case False
    then have "u_enterRender fuel that given w = Some (u_updateContext that newParent given w2)"
      by (simp only: e if_False)
    with assms have r: "u_updateContext that newParent given w2 = w'" by simp
    from updateContext_frame(1) [OF r, of that] obtain rc
      where rc: "events w' = events w2 @ rc" "appearMountOf that rc = []" by blast
    with False show ?thesis
      unfolding p2 by (auto simp add: newParent_def prevParent_def wasMounted_def)
  qed
qed

text \<open>The theorem for the moving child 4 of \<open>movedWorld\<close>, which enters render under
  parent 3 while it is mounted under parent 2.\<close>

theorem C4_onAppear_when_not_mounted_witness:
  "\<exists>w'. u_enterRender 5 4 None movedWorld = Some w'
      \<and> MOUNTED (flags (comps movedWorld 4))
      \<and> take (length (events movedWorld)) (events w') = events movedWorld
      \<and> appearMountOf 4 (drop (length (events movedWorld)) (events w')) = [OnMount 4]"
proof -
  have h: "u_enterRender 5 4 None movedWorld \<noteq> None"
    by code_simp
  have c1: "getCurrentRenderParent movedWorld \<noteq> renderParent (comps movedWorld 4)"
    by code_simp
  have c2: "MOUNTED (flags (comps movedWorld 4))"
    by code_simp
  have c3: "\<not> ERROR_DURING_INITIALIZE (flags (comps movedWorld 4))"
    by code_simp
  from h obtain w' where r: "u_enterRender 5 4 None movedWorld = Some w'"
    by (cases "u_enterRender 5 4 None movedWorld") auto
  from C4_onAppear_when_not_mounted [OF r] c1 c2 c3 r show ?thesis by auto
qed

text \<open>
  Claim C4 as the specification states it fails: \<^verbatim>\<open>onAppear\<close> is not limited to the
  first-ever mount.  Root 1 shows child 2, hides it (the child is unmounted and, one tick
  later, \<^verbatim>\<open>onDisappear\<close> is called) and shows it again: in the third pass the child
  enters render under parent 1, its previous render parent being \<^verbatim>\<open>null\<close>, after it
  has been mounted before, and \<^verbatim>\<open>onAppear\<close> is called a second time.
\<close>

theorem C4_counterexample:
  "(case renderRoot 6 1 (JStr ''show'') None showWorld of
     Some (r1, w1) \<Rightarrow>
       (case renderRoot 6 1 (JStr ''hide'') None w1 of
          Some (r2, w2) \<Rightarrow>
            (case renderRoot 6 1 (JStr ''show'') None (disappearHandlers w2) of
               Some (r3, w3) \<Rightarrow>
                 lifecycleOf 2 (events (disappearHandlers w2))
                   = [OnAppear 2, OnMount 2, OnUnmount 2, OnDisappear 2]
                 \<and> renderParent (comps (disappearHandlers w2) 2) = None
                 \<and> renderParent (comps w3 2) = Some 1
                 \<and> lifecycleOf 2 (drop (length (events (disappearHandlers w2))) (events w3))
                   = [OnAppear 2, OnMount 2]
             | None \<Rightarrow> False)
        | None \<Rightarrow> False)
   | None \<Rightarrow> False)"
  by code_simp

text \<open>
  Claim C8.  The documentation (Concepts.md, DosDonts) and the specification say that a
  child that moves from one parent to another gets \<^verbatim>\<open>onUnmount\<close> and then
  \<^verbatim>\<open>onMount\<close>.  The code calls \<^verbatim>\<open>onMount\<close> only: \<^verbatim>\<open>_enterRender\<close> overwrites
  \<^verbatim>\<open>_renderParent\<close> with the new parent before \<^verbatim>\<open>_remount\<close> calls
  \<^verbatim>\<open>_unmountFromParent(that, data, prevParent)\<close>, whose test
  \<^verbatim>\<open>data._renderParent !== parent\<close> then takes the child for one that is mounted
  elsewhere already and does nothing.  In the second pass of \<open>moveWorld\<close> child 4,
  mounted under parent 2, is rendered by parent 3; its lifecycle calls in that pass and
  the tick after it are the single \<^verbatim>\<open>onMount\<close>.
\<close>

theorem C8_move_calls_onMount_only:
  "(case renderRoot 6 1 (JStr ''first'') None moveWorld of
     Some (r1, w1) \<Rightarrow>
       (case renderRoot 6 1 (JStr ''second'') None w1 of
          Some (r2, w2) \<Rightarrow>
            MOUNTED (flags (comps w1 4)) \<and> renderParent (comps w1 4) = Some 2
            \<and> MOUNTED (flags (comps w2 4)) \<and> renderParent (comps w2 4) = Some 3
            \<and> lifecycleOf 4 (drop (length (events w1)) (events (disappearHandlers w2)))
                = [OnMount 4]
        | None \<Rightarrow> False)
   | None \<Rightarrow> False)"
  by code_simp

end
